theory Spec2Isabelle
  imports Complex_Main "HOL-Library.AList" "HOL-Library.Product_Lexorder" "HOL-Library.Multiset"
begin

section \<open>Floating-point values\<close>

text \<open>
  A Python or numpy float is a finite number, one of the two infinities, or NaN.
  Comparisons, negation, the absolute value and the tests \<open>isnan\<close>, \<open>isinf\<close>,
  \<open>isfinite\<close> are exact. An arithmetic operation on finite operands gives the
  rounding \<open>rnd\<close> of the exact result, which is a finite float or, on overflow, an
  infinity; on the special values it follows the IEEE rules. The rounding of the
  machine is a parameter \<open>rnd\<close> of every function that computes. What is proved
  holds for every rounding, or, where the statement says so, for every rounding
  that is monotone (\<open>rounding\<close> below), as round-to-nearest of binary64 is. A
  literal that is not a float (\<open>1.4826\<close>, \<open>0.8\<close>, \<open>1e-6\<close>) is the rounding of
  its decimal value.
  The sign of zero is not modelled (the code never divides by zero).
\<close>

datatype fval = Fin real | PInf | NInf | NaN

fun isnan :: "fval \<Rightarrow> bool" where
  "isnan NaN = True"
| "isnan _ = False"

fun isinf :: "fval \<Rightarrow> bool" where
  "isinf PInf = True"
| "isinf NInf = True"
| "isinf _ = False"

fun isfinite :: "fval \<Rightarrow> bool" where
  "isfinite (Fin _) = True"
| "isfinite _ = False"

fun fneg :: "fval \<Rightarrow> fval" where
  "fneg (Fin a) = Fin (- a)"
| "fneg PInf = NInf"
| "fneg NInf = PInf"
| "fneg NaN = NaN"

fun fabs :: "fval \<Rightarrow> fval" where
  "fabs (Fin a) = Fin \<bar>a\<bar>"
| "fabs PInf = PInf"
| "fabs NInf = PInf"
| "fabs NaN = NaN"

fun fadd :: "(real \<Rightarrow> fval) \<Rightarrow> fval \<Rightarrow> fval \<Rightarrow> fval" where
  "fadd rnd NaN _ = NaN"
| "fadd rnd _ NaN = NaN"
| "fadd rnd (Fin a) (Fin b) = rnd (a + b)"
| "fadd rnd PInf NInf = NaN"
| "fadd rnd NInf PInf = NaN"
| "fadd rnd PInf _ = PInf"
| "fadd rnd NInf _ = NInf"
| "fadd rnd (Fin _) PInf = PInf"
| "fadd rnd (Fin _) NInf = NInf"

definition fsub :: "(real \<Rightarrow> fval) \<Rightarrow> fval \<Rightarrow> fval \<Rightarrow> fval" where
  "fsub rnd a b = fadd rnd a (fneg b)"

text \<open>The sign of a value: \<open>-1\<close>, \<open>0\<close> or \<open>1\<close> (NaN has none and is handled before).\<close>

fun fsign :: "fval \<Rightarrow> int" where
  "fsign (Fin a) = (if a < 0 then - 1 else if a = 0 then 0 else 1)"
| "fsign PInf = 1"
| "fsign NInf = - 1"
| "fsign NaN = 0"

definition signed_inf :: "int \<Rightarrow> fval" where
  "signed_inf s = (if s = 0 then NaN else if s < 0 then NInf else PInf)"

fun fmul :: "(real \<Rightarrow> fval) \<Rightarrow> fval \<Rightarrow> fval \<Rightarrow> fval" where
  "fmul rnd NaN _ = NaN"
| "fmul rnd _ NaN = NaN"
| "fmul rnd (Fin a) (Fin b) = rnd (a * b)"
| "fmul rnd a b = signed_inf (fsign a * fsign b)"

text \<open>numpy's division of float64 values: dividing by zero gives an infinity or NaN.\<close>

fun fdiv :: "(real \<Rightarrow> fval) \<Rightarrow> fval \<Rightarrow> fval \<Rightarrow> fval" where
  "fdiv rnd NaN _ = NaN"
| "fdiv rnd _ NaN = NaN"
| "fdiv rnd (Fin a) (Fin b) = (if b = 0 then signed_inf (fsign (Fin a)) else rnd (a / b))"
| "fdiv rnd (Fin _) _ = Fin 0"
| "fdiv rnd a (Fin b) = signed_inf (fsign a * (if b < 0 then - 1 else 1))"
| "fdiv rnd _ _ = NaN"

fun fle :: "fval \<Rightarrow> fval \<Rightarrow> bool" where
  "fle NaN _ = False"
| "fle _ NaN = False"
| "fle NInf _ = True"
| "fle _ PInf = True"
| "fle (Fin a) (Fin b) = (a \<le> b)"
| "fle _ _ = False"

fun flt :: "fval \<Rightarrow> fval \<Rightarrow> bool" where
  "flt NaN _ = False"
| "flt _ NaN = False"
| "flt PInf _ = False"
| "flt _ NInf = False"
| "flt (Fin a) (Fin b) = (a < b)"
| "flt _ _ = True"

definition fgt :: "fval \<Rightarrow> fval \<Rightarrow> bool" where
  "fgt a b = flt b a"

fun feq :: "fval \<Rightarrow> fval \<Rightarrow> bool" where
  "feq NaN _ = False"
| "feq _ NaN = False"
| "feq a b = (a = b)"

text \<open>Truth value of a float in a condition (\<open>if x\<close>): everything but zero, NaN included.\<close>

definition truthy :: "fval \<Rightarrow> bool" where
  "truthy x = (\<not> feq x (Fin 0))"

text \<open>Python's \<open>max(a, b)\<close>: the first argument unless the second is greater.\<close>

definition py_max :: "fval \<Rightarrow> fval \<Rightarrow> fval" where
  "py_max a b = (if fgt b a then b else a)"

text \<open>\<open>np.clip(x, 0.0, 1.0)\<close>: NaN stays NaN.\<close>

fun clip01 :: "fval \<Rightarrow> fval" where
  "clip01 NaN = NaN"
| "clip01 PInf = Fin 1"
| "clip01 NInf = Fin 0"
| "clip01 (Fin a) = Fin (max 0 (min 1 a))"

text \<open>
  What the proofs below ask of a rounding: it gives no NaN, it is monotone, and it
  leaves \<open>1\<close> as it is. Round-to-nearest of binary64 is such a rounding; so is
  \<open>exact\<close>, the rounding of a machine of unbounded precision, which the concrete
  instances use.
\<close>

definition rounding :: "(real \<Rightarrow> fval) \<Rightarrow> bool" where
  "rounding rnd =
     ((\<forall>x. \<not> isnan (rnd x)) \<and> (\<forall>x y. x \<le> y \<longrightarrow> fle (rnd x) (rnd y)) \<and> rnd 1 = Fin 1)"

definition exact :: "real \<Rightarrow> fval" where
  "exact x = Fin x"

section \<open>Exceptions\<close>

text \<open>
  Built-in exception classes and exceptions of the libraries are \<open>py_error\<close>; the
  classes the application defines are \<open>error\<close>. \<open>FeatureExtractionError\<close> and
  \<open>LightcurveNotFoundError\<close> carry their cause (\<open>raise ... from exc\<close>); messages
  are not modelled. A library call returns \<open>py_error + 'a\<close>: it cannot raise one of
  the application's classes.
\<close>

datatype py_error =
    FileNotFoundError | ValueError | IndexError | TypeError | RuntimeError
  | AttributeError | ZeroDivisionError | LibraryError

datatype error =
    InsufficientDataError
  | FeatureExtractionError error
  | LightcurveNotFoundError error
  | PyError py_error

text \<open>\<open>except FileNotFoundError\<close> also catches the subclass \<open>LightcurveNotFoundError\<close>.\<close>

fun is_FileNotFoundError :: "error \<Rightarrow> bool" where
  "is_FileNotFoundError (PyError FileNotFoundError) = True"
| "is_FileNotFoundError (LightcurveNotFoundError _) = True"
| "is_FileNotFoundError _ = False"

definition lift_py :: "py_error + 'a \<Rightarrow> error + 'a" where
  "lift_py r = (case r of Inl e \<Rightarrow> Inl (PyError e) | Inr x \<Rightarrow> Inr x)"

text \<open>Python's \<open>a / b\<close> on floats raises on a zero divisor.\<close>

definition py_truediv :: "(real \<Rightarrow> fval) \<Rightarrow> fval \<Rightarrow> fval \<Rightarrow> py_error + fval" where
  "py_truediv rnd a b = (if feq b (Fin 0) then Inl ZeroDivisionError else Inr (fdiv rnd a b))"

definition index0 :: "'a list \<Rightarrow> py_error + 'a" where
  "index0 xs = (case xs of [] \<Rightarrow> Inl IndexError | x # _ \<Rightarrow> Inr x)"

definition index_at :: "'a list \<Rightarrow> nat \<Rightarrow> py_error + 'a" where
  "index_at xs i = (if i < length xs then Inr (xs ! i) else Inl IndexError)"

section \<open>Series and dictionaries\<close>

text \<open>
  A \<open>pd.Series\<close> of floats is the list of its (label, value) pairs in index order. A
  Python \<open>dict\<close> is an association list in insertion order; an assignment
  \<open>d[k] = v\<close> is \<open>AList.update k v d\<close>.
\<close>

type_synonym series = "(string \<times> fval) list"
type_synonym summary_dict = "(string \<times> fval option) list"
type_synonym payload = "(string \<times> fval option) list"

text \<open>\<open>pd.isna\<close> on a float is true for NaN only.\<close>

definition pd_isna :: "fval \<Rightarrow> bool" where
  "pd_isna v = isnan v"

definition InferenceService_serialize_series :: "series \<Rightarrow> payload" where
  "InferenceService_serialize_series s =
     fold (\<lambda>(key, v) p. AList.update key (if pd_isna v then None else Some v) p) s []"

text \<open>A summary value is a float or Python's \<open>None\<close> (here \<open>None\<close>).\<close>

definition InferenceService_serialize_summary :: "summary_dict \<Rightarrow> payload" where
  "InferenceService_serialize_summary s =
     fold (\<lambda>(key, v) p. AList.update key
             (case v of None \<Rightarrow> None
              | Some x \<Rightarrow> if isnan x \<or> isinf x then None else Some x) p) s []"

text \<open>\<open>features.get(k, nan)\<close>.\<close>

definition series_get :: "series \<Rightarrow> string \<Rightarrow> fval" where
  "series_get s k = (case map_of s k of Some v \<Rightarrow> v | None \<Rightarrow> NaN)"

definition InferenceService_summary_from_features :: "series \<Rightarrow> summary_dict" where
  "InferenceService_summary_from_features f =
     [(''period_days'', Some (series_get f ''period_days'')),
      (''duration_hours'', Some (series_get f ''duration_hours'')),
      (''depth_ppm'', Some (series_get f ''depth_ppm'')),
      (''snr'', Some (series_get f ''snr'')),
      (''t0_btjd'', Some (series_get f ''t0_btjd''))]"

text \<open>
  \<open>features.reindex(names)\<close>: the values in the order of \<open>names\<close>, NaN for a label the
  series does not have (the labels of a series are distinct).
\<close>

definition reindex :: "series \<Rightarrow> string list \<Rightarrow> fval list" where
  "reindex s names = map (series_get s) names"

section \<open>Settings, model objects and the artifact state\<close>

record settings =
  model_dir :: string
  processed_dir :: string
  interim_dir :: string
  period_min :: fval
  period_max :: fval
  n_periods :: nat
  dur_min_hours :: fval
  dur_max_hours :: fval
  auto_fetch_missing :: bool

text \<open>
  A matrix is the list of its rows. An unpickled object is known by the methods the
  service calls on it; a method it lacks is \<open>None\<close> (the call raises
  \<open>AttributeError\<close>). A method is a function of its argument and of the ambient
  state of the process at the call (random generators, threads, anything else an
  estimator may read): an estimator need not be deterministic.
  \<open>is_Booster\<close> is \<open>isinstance(obj, xgb.Booster)\<close>.
\<close>

type_synonym matrix = "fval list list"
type_synonym dmatrix = "matrix \<times> string list"

record pyobj =
  decision_function :: "(nat \<Rightarrow> matrix \<Rightarrow> py_error + fval list) option"
  predict :: "(nat \<Rightarrow> dmatrix \<Rightarrow> py_error + fval list) option"
  transform :: "(nat \<Rightarrow> matrix \<Rightarrow> py_error + matrix) option"
  predict_proba :: "(nat \<Rightarrow> matrix \<Rightarrow> py_error + matrix) option"
  is_Booster :: bool

record xgb_module =
  DMatrix :: "nat \<Rightarrow> matrix \<Rightarrow> string list \<Rightarrow> py_error + dmatrix"

datatype mode = one_class | supervised

record artifact_state =
  mode :: mode
  feature_names :: "string list"
  model :: pyobj
  scaler :: "pyobj option"
  calibrator :: "pyobj option"
  xgb :: "xgb_module option"
  latest :: string
  model_path :: string
  feature_names_path :: string
  feature_names_version :: string
  latest_mtime :: real

section \<open>The world outside the process\<close>

text \<open>
  Files are modelled by what the readers of the code get from them. The files of
  \<open>settings.model_dir\<close> are keyed by their name; the light-curve and feature-cache
  parquet files, whose paths are \<open>TIC-<id>.parquet\<close> under two different
  directories, are keyed by the TIC identifier. \<open>mast\<close> is what a download from the
  archive would store for an identifier (\<open>None\<close>: the download fails). The clock is
  the sequence of readings of \<open>time.perf_counter\<close> in milliseconds. \<open>ambient\<close> is
  the sequence of ambient states the calls of estimator methods find, \<open>calls\<close> the
  number of such calls so far. \<open>trace\<close> records the calls that touch the world, in
  order, and the calls of \<open>_score\<close>.
\<close>

datatype json_doc =
    JsonObject "string list option"
  | JsonArray "string list"
  | JsonOther

datatype artifact_file =
    Pickle pyobj
  | BoosterModel "nat \<Rightarrow> dmatrix \<Rightarrow> py_error + fval list"
  | Json json_doc
  | Unreadable

record lc_table =
  col_time :: "fval list option"
  col_flux :: "fval list option"
  col_flux_err :: "fval list option"

type_synonym feature_table = "series list"

datatype event =
    LoadArtifacts
  | ReadLightcurve int
  | FetchLightcurve int
  | ReadFeatureCache int
  | WriteFeatureCache int
  | ScoreCall

record world =
  pointer :: "(string \<times> real) option"
  artifacts :: "string \<Rightarrow> artifact_file option"
  xgboost :: "xgb_module option"
  lightcurves :: "int \<Rightarrow> lc_table option"
  feature_cache :: "int \<Rightarrow> feature_table option"
  mast :: "int \<Rightarrow> lc_table option"
  clock :: "nat \<Rightarrow> int"
  ticks :: nat
  ambient :: "nat \<Rightarrow> nat"
  calls :: nat
  trace :: "event list"

definition log_event :: "event \<Rightarrow> world \<Rightarrow> world" where
  "log_event e w = w\<lparr>trace := trace w @ [e]\<rparr>"

definition monotonic_ms :: "world \<Rightarrow> int \<times> world" where
  "monotonic_ms w = (clock w (ticks w), w\<lparr>ticks := Suc (ticks w)\<rparr>)"

definition elapsed_ms :: "int \<Rightarrow> world \<Rightarrow> int \<times> world" where
  "elapsed_ms start_ms w = (case monotonic_ms w of (now, w') \<Rightarrow> (max 0 (now - start_ms), w'))"

text \<open>
  A call into an estimator library, and a call of a method of an unpickled object:
  the callee finds the ambient state of this call.
\<close>

definition call_library :: "(nat \<Rightarrow> 'a) \<Rightarrow> world \<Rightarrow> 'a \<times> world" where
  "call_library f w = (f (ambient w (calls w)), w\<lparr>calls := Suc (calls w)\<rparr>)"

definition call_method ::
  "(nat \<Rightarrow> 'a \<Rightarrow> py_error + 'b) option \<Rightarrow> 'a \<Rightarrow> world \<Rightarrow> (py_error + 'b) \<times> world" where
  "call_method m x w =
     (case m of
        None \<Rightarrow> (Inl AttributeError, w)
      | Some f \<Rightarrow> call_library (\<lambda>a. f a x) w)"

section \<open>Scoring\<close>

record lc_payload =
  lp_time :: "fval list"
  lp_flux :: "fval list"
  lp_flux_err :: "fval list option"

record meta =
  meta_artifact_dir :: string
  meta_feature_names_version :: string
  meta_runtime_ms :: int
  meta_cache_hit :: "bool option"
  meta_auto_fetch :: bool

record response =
  resp_tic_id :: "int option"
  resp_mode :: mode
  resp_is_probability :: bool
  resp_score :: fval
  resp_summary :: payload
  resp_features :: payload
  resp_warnings :: "string list"
  resp_meta :: meta
  resp_lightcurve :: "lc_payload option"

text \<open>\<open>np.linspace(0, n - 1, num=m, dtype=int)\<close> for \<open>m > 1\<close>.\<close>

definition linspace_int :: "nat \<Rightarrow> nat \<Rightarrow> nat list" where
  "linspace_int n m = map (\<lambda>i. nat \<lfloor>real i * real (n - 1) / real (m - 1)\<rfloor>) [0..<m]"

text \<open>Indexing an array with an array of indices; an index out of range raises.\<close>

definition take_indices :: "'a list \<Rightarrow> nat list \<Rightarrow> py_error + 'a list" where
  "take_indices xs idx =
     (if list_all (\<lambda>i. i < length xs) idx then Inr (map (\<lambda>i. xs ! i) idx) else Inl IndexError)"

definition sample_array :: "nat \<Rightarrow> nat \<Rightarrow> 'a list \<Rightarrow> py_error + 'a list" where
  "sample_array n max_points xs =
     (if n > max_points then take_indices xs (linspace_int n max_points) else Inr xs)"

definition InferenceService_prepare_lightcurve ::
  "fval list \<Rightarrow> fval list \<Rightarrow> fval list option \<Rightarrow> py_error + lc_payload" where
  "InferenceService_prepare_lightcurve time flux flux_err =
     (if time = [] \<or> flux = [] then Inr \<lparr>lp_time = [], lp_flux = [], lp_flux_err = None\<rparr>
      else case sample_array (length time) 5000 time of Inl e \<Rightarrow> Inl e
      | Inr time_sampled \<Rightarrow>
        (case sample_array (length time) 5000 flux of Inl e \<Rightarrow> Inl e
         | Inr flux_sampled \<Rightarrow>
           (case flux_err of
              None \<Rightarrow> Inr \<lparr>lp_time = time_sampled, lp_flux = flux_sampled, lp_flux_err = None\<rparr>
            | Some err \<Rightarrow>
                if err = [] then
                  Inr \<lparr>lp_time = time_sampled, lp_flux = flux_sampled, lp_flux_err = None\<rparr>
                else (case sample_array (length time) 5000 err of Inl e \<Rightarrow> Inl e
                      | Inr err_sampled \<Rightarrow>
                          Inr \<lparr>lp_time = time_sampled, lp_flux = flux_sampled,
                               lp_flux_err = Some err_sampled\<rparr>))))"

text \<open>
  The two branches of \<open>_score\<close>: each gives the score and the probability flag.
  \<open>X_model\<close> is the one-row matrix after the optional scaler.
\<close>

definition score_one_class ::
  "(real \<Rightarrow> fval) \<Rightarrow> artifact_state \<Rightarrow> matrix \<Rightarrow> world \<Rightarrow>
   (py_error + fval \<times> bool) \<times> world" where
  "score_one_class rnd state X_model w =
     (case call_method (decision_function (model state)) X_model w of
        (Inl e, w1) \<Rightarrow> (Inl e, w1)
      | (Inr out, w1) \<Rightarrow>
        (case index0 out of Inl e \<Rightarrow> (Inl e, w1)
         | Inr raw_score \<Rightarrow> (Inr (clip01 (fadd rnd raw_score (Fin (1 / 2))), False), w1)))"

definition score_supervised ::
  "artifact_state \<Rightarrow> matrix \<Rightarrow> world \<Rightarrow> (py_error + fval \<times> bool) \<times> world" where
  "score_supervised state X_model w =
     (case xgb state of None \<Rightarrow> (Inl RuntimeError, w)
      | Some xgb_module \<Rightarrow>
        (case call_library (\<lambda>a. DMatrix xgb_module a X_model (feature_names state)) w of
           (Inl e, w1) \<Rightarrow> (Inl e, w1)
         | (Inr dm, w1) \<Rightarrow>
           (case call_method (predict (model state)) dm w1 of
              (Inl e, w2) \<Rightarrow> (Inl e, w2)
            | (Inr raw_output, w2) \<Rightarrow>
              (case index0 raw_output of Inl e \<Rightarrow> (Inl e, w2)
               | Inr raw \<Rightarrow>
                 (case calibrator state of
                    None \<Rightarrow> (Inr (clip01 raw, True), w2)
                  | Some cal \<Rightarrow>
                    (case call_method (predict_proba cal) X_model w2 of
                       (Inl e, w3) \<Rightarrow> (Inl e, w3)
                     | (Inr proba, w3) \<Rightarrow>
                       (case index0 proba of Inl e \<Rightarrow> (Inl e, w3)
                        | Inr row \<Rightarrow>
                          (case index_at row 1 of Inl e \<Rightarrow> (Inl e, w3)
                           | Inr p \<Rightarrow> (Inr (clip01 p, True), w3)))))))))"

definition model_input :: "artifact_state \<Rightarrow> series \<Rightarrow> world \<Rightarrow> (py_error + matrix) \<times> world" where
  "model_input state features w =
     (let X = [reindex features (feature_names state)] in
      case scaler state of None \<Rightarrow> (Inr X, w)
      | Some sc \<Rightarrow> call_method (transform sc) X w)"

definition InferenceService_score ::
  "(real \<Rightarrow> fval) \<Rightarrow> settings \<Rightarrow> series \<Rightarrow> summary_dict \<Rightarrow> string list \<Rightarrow> int option \<Rightarrow> int \<Rightarrow>
   artifact_state \<Rightarrow> bool option \<Rightarrow> bool \<Rightarrow> lc_payload option \<Rightarrow> world \<Rightarrow>
   (py_error + response) \<times> world" where
  "InferenceService_score rnd cfg features summary warnings tic_id start_ms state cache_hit
     auto_fetch lightcurve w0 =
     (case model_input state features (log_event ScoreCall w0) of
        (Inl e, w1) \<Rightarrow> (Inl e, w1)
      | (Inr X_model, w1) \<Rightarrow>
        (case (if mode state = one_class then score_one_class rnd state X_model w1
               else score_supervised state X_model w1) of
           (Inl e, w2) \<Rightarrow> (Inl e, w2)
         | (Inr (score, is_probability), w2) \<Rightarrow>
           (case elapsed_ms start_ms w2 of
              (runtime, w') \<Rightarrow>
                (Inr \<lparr>resp_tic_id = tic_id,
                      resp_mode = mode state,
                      resp_is_probability = is_probability,
                      resp_score = score,
                      resp_summary = InferenceService_serialize_summary summary,
                      resp_features = InferenceService_serialize_series features,
                      resp_warnings = warnings,
                      resp_meta = \<lparr>meta_artifact_dir = model_dir cfg,
                                   meta_feature_names_version = feature_names_version state,
                                   meta_runtime_ms = runtime,
                                   meta_cache_hit = cache_hit,
                                   meta_auto_fetch = auto_fetch\<rparr>,
                      resp_lightcurve = lightcurve\<rparr>, w'))))"

text \<open>
  An artifact state is deterministic when the methods \<open>_score\<close> calls on its objects
  and the \<open>DMatrix\<close> constructor give the same result whatever the ambient state of
  the call.
\<close>

definition ignores_ambient :: "(nat \<Rightarrow> 'a) option \<Rightarrow> bool" where
  "ignores_ambient m = (case m of None \<Rightarrow> True | Some f \<Rightarrow> \<forall>a b. f a = f b)"

definition deterministic :: "artifact_state \<Rightarrow> bool" where
  "deterministic state =
     (ignores_ambient (decision_function (model state))
      \<and> ignores_ambient (predict (model state))
      \<and> (case scaler state of None \<Rightarrow> True | Some sc \<Rightarrow> ignores_ambient (transform sc))
      \<and> (case calibrator state of None \<Rightarrow> True
         | Some cal \<Rightarrow> ignores_ambient (predict_proba cal))
      \<and> (case xgb state of None \<Rightarrow> True
         | Some xgb_module \<Rightarrow> ignores_ambient (Some (DMatrix xgb_module))))"

section \<open>Feature extraction\<close>

subsection \<open>numpy\<close>

text \<open>
  The order numpy sorts floats in: \<open>-inf\<close>, the finite values, \<open>+inf\<close>, then NaN.
  \<open>np.argsort\<close> is modelled by the stable sort; numpy leaves the order of equal
  keys to the implementation.
\<close>

fun fkey :: "fval \<Rightarrow> nat \<times> real" where
  "fkey NInf = (0, 0)"
| "fkey (Fin a) = (1, a)"
| "fkey PInf = (2, 0)"
| "fkey NaN = (3, 0)"

definition np_sort :: "fval list \<Rightarrow> fval list" where
  "np_sort xs = sort_key fkey xs"

definition argsort :: "fval list \<Rightarrow> nat list" where
  "argsort xs = map snd (sort_key (\<lambda>p. fkey (fst p)) (zip xs [0..<length xs]))"

definition reorder :: "'a list \<Rightarrow> nat list \<Rightarrow> 'a list" where
  "reorder xs order = map (\<lambda>i. xs ! i) order"

text \<open>\<open>np.median\<close>: NaN for an empty array or one that holds a NaN, else the middle
  of the sorted values (the mean of the two middle ones for an even length: their
  sum, rounded, divided by two).\<close>

definition np_median :: "(real \<Rightarrow> fval) \<Rightarrow> fval list \<Rightarrow> fval" where
  "np_median rnd xs =
     (if xs = [] \<or> list_ex isnan xs then NaN
      else (let s = np_sort xs; n = length xs
            in if odd n then s ! (n div 2)
               else fdiv rnd (fadd rnd (s ! (n div 2 - 1)) (s ! (n div 2))) (Fin 2)))"

text \<open>Indexing with a boolean mask: the mask must have the length of the array.\<close>

definition mask_select :: "'a list \<Rightarrow> bool list \<Rightarrow> py_error + 'a list" where
  "mask_select xs m =
     (if length xs = length m then Inr (map fst (filter snd (zip xs m))) else Inl IndexError)"

text \<open>\<open>a & b\<close> with broadcasting, and the in-place \<open>a &= b\<close>, on one-dimensional
  boolean arrays.\<close>

definition broadcast_and :: "bool list \<Rightarrow> bool list \<Rightarrow> py_error + bool list" where
  "broadcast_and a b =
     (if length a = length b then Inr (map (\<lambda>(x, y). x \<and> y) (zip a b))
      else if length a = 1 then Inr (map (\<lambda>y. hd a \<and> y) b)
      else if length b = 1 then Inr (map (\<lambda>x. x \<and> hd b) a)
      else Inl ValueError)"

definition inplace_and :: "bool list \<Rightarrow> bool list \<Rightarrow> py_error + bool list" where
  "inplace_and a b =
     (if length a = length b then Inr (map (\<lambda>(x, y). x \<and> y) (zip a b))
      else if length b = 1 then Inr (map (\<lambda>x. x \<and> hd b) a)
      else Inl ValueError)"

text \<open>\<open>np.nanargmax\<close>: the first index of the greatest value that is not NaN; an
  array of NaN only raises.\<close>

fun argmax_from :: "fval list \<Rightarrow> nat \<Rightarrow> (nat \<times> fval) option \<Rightarrow> (nat \<times> fval) option" where
  "argmax_from [] i best = best"
| "argmax_from (x # xs) i best =
     argmax_from xs (Suc i)
       (if isnan x then best
        else (case best of None \<Rightarrow> Some (i, x)
              | Some (j, b) \<Rightarrow> if fgt x b then Some (i, x) else best))"

definition nanargmax :: "fval list \<Rightarrow> py_error + nat" where
  "nanargmax xs = (case argmax_from xs 0 None of None \<Rightarrow> Inl ValueError | Some (i, _) \<Rightarrow> Inr i)"

text \<open>\<open>astype(int)\<close> after \<open>np.floor\<close>: a value that is not finite or does not fit
  64 bits becomes the least 64-bit integer (the result on x86-64).\<close>

definition floor_astype_int :: "fval \<Rightarrow> int" where
  "floor_astype_int x =
     (case x of
        Fin a \<Rightarrow> if - (2 ^ 63) \<le> \<lfloor>a\<rfloor> \<and> \<lfloor>a\<rfloor> < 2 ^ 63 then \<lfloor>a\<rfloor> else - (2 ^ 63)
      | _ \<Rightarrow> - (2 ^ 63))"

subsection \<open>Outlier clipping\<close>

definition MIN_SAMPLES :: nat where
  "MIN_SAMPLES = 200"

definition META_FEATURE_KEYS :: "string list" where
  "META_FEATURE_KEYS = [''tmag'', ''teff'', ''rad'', ''crowdsap'', ''contratio'']"

definition mad :: "(real \<Rightarrow> fval) \<Rightarrow> fval list \<Rightarrow> fval" where
  "mad rnd values =
     np_median rnd (map (\<lambda>v. fabs (fsub rnd v (np_median rnd values))) values)"

text \<open>\<open>5.0 * 1.4826 * mad\<close>: the product of the two literals is rounded, then the
  product with the MAD.\<close>

definition clip_threshold :: "(real \<Rightarrow> fval) \<Rightarrow> fval list \<Rightarrow> fval" where
  "clip_threshold rnd flux = fmul rnd (fmul rnd (Fin 5) (rnd 1.4826)) (mad rnd flux)"

definition clip_mask :: "(real \<Rightarrow> fval) \<Rightarrow> fval list \<Rightarrow> bool list" where
  "clip_mask rnd flux =
     map (\<lambda>f. fle (fabs (fsub rnd f (np_median rnd flux))) (clip_threshold rnd flux)) flux"

definition five_sigma_clip ::
  "(real \<Rightarrow> fval) \<Rightarrow> fval list \<Rightarrow> fval list \<Rightarrow> fval list option \<Rightarrow>
   py_error + fval list \<times> fval list \<times> fval list option \<times> fval" where
  "five_sigma_clip rnd time flux flux_err =
     (if feq (mad rnd flux) (Fin 0) then Inr (time, flux, flux_err, Fin 1)
      else (let mask = clip_mask rnd flux
            in case mask_select time mask of Inl e \<Rightarrow> Inl e
               | Inr clipped_time \<Rightarrow>
                 (case mask_select flux mask of Inl e \<Rightarrow> Inl e
                  | Inr clipped_flux \<Rightarrow>
                    (case (case flux_err of None \<Rightarrow> Inr None
                           | Some err \<Rightarrow>
                               (case mask_select err mask of Inl e \<Rightarrow> Inl e
                                | Inr ce \<Rightarrow> Inr (Some ce))) of
                       Inl e \<Rightarrow> Inl e
                     | Inr clipped_err \<Rightarrow>
                         if length flux = 0 then Inl ZeroDivisionError
                         else Inr (clipped_time, clipped_flux, clipped_err,
                                   rnd (real (length (filter id mask)) / real (length flux)))))))"

subsection \<open>Conditioning (lines 70 to 100 of \<open>build_bls_features\<close>)\<close>

record conditioned =
  c_time :: "fval list"
  c_flux :: "fval list"
  c_flux_err :: "fval list option"
  c_fraction_kept :: fval
  c_warnings :: "string list"

text \<open>Dropping the samples with a value that is not finite (lines 79 to 85).\<close>

definition finite_filter ::
  "fval list \<Rightarrow> fval list \<Rightarrow> fval list option \<Rightarrow>
   py_error + fval list \<times> fval list \<times> fval list option" where
  "finite_filter time flux flux_err =
     (case broadcast_and (map isfinite time) (map isfinite flux) of Inl e \<Rightarrow> Inl e
      | Inr m0 \<Rightarrow>
        (case (case flux_err of None \<Rightarrow> Inr m0
               | Some err \<Rightarrow> inplace_and m0 (map isfinite err)) of
           Inl e \<Rightarrow> Inl e
         | Inr finite_mask \<Rightarrow>
           (case mask_select time finite_mask of Inl e \<Rightarrow> Inl e
            | Inr t \<Rightarrow>
              (case mask_select flux finite_mask of Inl e \<Rightarrow> Inl e
               | Inr f \<Rightarrow>
                 (case flux_err of None \<Rightarrow> Inr (t, f, None)
                  | Some err \<Rightarrow>
                      (case mask_select err finite_mask of Inl e \<Rightarrow> Inl e
                       | Inr er \<Rightarrow> Inr (t, f, Some er)))))))"

text \<open>Sorting by time (lines 90 to 94).\<close>

definition sort_by_time ::
  "fval list \<times> fval list \<times> fval list option \<Rightarrow> fval list \<times> fval list \<times> fval list option" where
  "sort_by_time a =
     (case a of (t, f, er) \<Rightarrow>
        (let order = argsort t
         in (reorder t order, reorder f order, map_option (\<lambda>e. reorder e order) er)))"

definition condition_sample ::
  "(real \<Rightarrow> fval) \<Rightarrow> fval list \<Rightarrow> fval list \<Rightarrow> fval list option \<Rightarrow> error + conditioned" where
  "condition_sample rnd time flux flux_err =
     (case finite_filter time flux flux_err of Inl e \<Rightarrow> Inl (PyError e)
      | Inr (t, f, er) \<Rightarrow>
          if length t < MIN_SAMPLES then Inl InsufficientDataError
          else (case sort_by_time (t, f, er) of (ts, fs, es) \<Rightarrow>
                 (case five_sigma_clip rnd ts fs es of Inl e \<Rightarrow> Inl (PyError e)
                  | Inr (tc, fc, ec, fraction_kept) \<Rightarrow>
                      if length tc < MIN_SAMPLES then Inl InsufficientDataError
                      else Inr \<lparr>c_time = tc, c_flux = fc, c_flux_err = ec,
                                c_fraction_kept = fraction_kept,
                                c_warnings = (if flt fraction_kept (rnd 0.8)
                                              then [''aggressive_clipping''] else [])\<rparr>)))"

subsection \<open>Normalisation (lines 102 to 110)\<close>

definition normalise ::
  "(real \<Rightarrow> fval) \<Rightarrow> conditioned \<Rightarrow> py_error + fval list \<times> fval list option" where
  "normalise rnd c =
     (let median_flux = np_median rnd (c_flux c)
      in if \<not> isfinite median_flux \<or> feq median_flux (Fin 0) then Inl ValueError
         else Inr (map (\<lambda>f. fsub rnd (fdiv rnd f median_flux) (Fin 1)) (c_flux c),
                   map_option (map (\<lambda>e. fdiv rnd e median_flux)) (c_flux_err c)))"

subsection \<open>The period search (lines 112 to 154)\<close>

text \<open>
  The reductions \<open>np.mean\<close> and \<open>np.std\<close> and the grid \<open>np.linspace\<close> are numpy's:
  the order of their additions and their rounding are the library's, and nothing
  is assumed of them.
  The box least squares search is the library's. \<open>bls_power\<close> stands for building
  the \<open>BoxLeastSquares\<close> object and calling \<open>power\<close> on the two grids; it gives one
  entry per period. \<open>bls_compute_stats\<close> gives the table of \<open>compute_stats\<close> as the
  three readings lines 130 to 146 take from it: the depth, the depth
  signal-to-noise and the transit mask, each \<open>None\<close> when the table has no such
  entry. \<open>bls_transit_mask\<close> is the library's \<open>transit_mask\<close>.
\<close>

record bls_results =
  res_period :: "fval list"
  res_duration :: "fval list"
  res_transit_time :: "fval list"
  res_depth :: "fval list"
  res_power :: "fval list"

record stats_view =
  sv_depth :: "fval option"
  sv_depth_snr :: "fval option"
  sv_transit_mask :: "bool list option"

record libraries =
  np_mean :: "fval list \<Rightarrow> fval"
  np_std :: "fval list \<Rightarrow> fval"
  np_linspace :: "fval \<Rightarrow> fval \<Rightarrow> nat \<Rightarrow> fval list"
  bls_power ::
    "fval list \<Rightarrow> fval list \<Rightarrow> fval list option \<Rightarrow> fval list \<Rightarrow> fval list \<Rightarrow>
     py_error + bls_results"
  bls_compute_stats ::
    "fval list \<Rightarrow> fval list \<Rightarrow> fval list option \<Rightarrow> fval \<Rightarrow> fval \<Rightarrow> fval \<Rightarrow>
     py_error + stats_view"
  bls_transit_mask :: "fval list \<Rightarrow> fval \<Rightarrow> fval \<Rightarrow> fval \<Rightarrow> py_error + bool list"

record best_fit =
  best_period :: fval
  best_duration :: fval
  best_t0 :: fval
  depth_value :: fval
  depth_snr :: fval
  transit_mask_array :: "bool list"
  spectrum :: "fval list"
  best_idx :: nat

definition period_search ::
  "(real \<Rightarrow> fval) \<Rightarrow> libraries \<Rightarrow> settings \<Rightarrow> fval list \<Rightarrow> fval list \<Rightarrow> fval list option \<Rightarrow>
   py_error + best_fit" where
  "period_search rnd lib cfg time_arr norm_flux norm_flux_err =
     (let periods = np_linspace lib (period_min cfg) (period_max cfg) (n_periods cfg);
          durations = map (\<lambda>d. fdiv rnd d (Fin 24))
                        (np_linspace lib (dur_min_hours cfg) (dur_max_hours cfg) 20)
      in case bls_power lib time_arr norm_flux norm_flux_err periods durations of
           Inl e \<Rightarrow> Inl e
         | Inr results \<Rightarrow>
           if res_power results = [] then Inl ValueError
           else
           (case nanargmax (res_power results) of Inl e \<Rightarrow> Inl e
            | Inr idx \<Rightarrow>
            (case index_at (res_period results) idx of Inl e \<Rightarrow> Inl e
             | Inr p \<Rightarrow>
             (case index_at (res_duration results) idx of Inl e \<Rightarrow> Inl e
              | Inr d \<Rightarrow>
              (case index_at (res_transit_time results) idx of Inl e \<Rightarrow> Inl e
               | Inr t0 \<Rightarrow>
               (case bls_compute_stats lib time_arr norm_flux norm_flux_err p d t0 of
                  Inl e \<Rightarrow> Inl e
                | Inr stats \<Rightarrow>
                (case index_at (res_power results) idx of Inl e \<Rightarrow> Inl e
                 | Inr best_power \<Rightarrow>
                 (case (case sv_depth stats of Some v \<Rightarrow> Inr v
                        | None \<Rightarrow> index_at (res_depth results) idx) of
                    Inl e \<Rightarrow> Inl e
                  | Inr dv \<Rightarrow>
                  (case (case sv_transit_mask stats of Some m \<Rightarrow> Inr m
                         | None \<Rightarrow> bls_transit_mask lib time_arr p d t0) of
                     Inl e \<Rightarrow> Inl e
                   | Inr m \<Rightarrow>
                       Inr \<lparr>best_period = p, best_duration = d, best_t0 = t0,
                            depth_value = dv,
                            depth_snr = (case sv_depth_snr stats of Some v \<Rightarrow> v
                                         | None \<Rightarrow> best_power),
                            transit_mask_array = m,
                            spectrum = res_power results,
                            best_idx = idx\<rparr>)))))))))"

subsection \<open>The derived diagnostics (lines 156 to 189)\<close>

text \<open>Lines 162 to 164.\<close>

definition n_transits_of :: "(real \<Rightarrow> fval) \<Rightarrow> fval list \<Rightarrow> fval \<Rightarrow> py_error + fval" where
  "n_transits_of rnd time_arr period =
     (let baseline_days = (if time_arr \<noteq> [] then fsub rnd (last time_arr) (hd time_arr)
                           else Fin 0)
      in case (if fgt period (Fin 0) then py_truediv rnd baseline_days period
               else Inr (Fin 0)) of
           Inl e \<Rightarrow> Inl e
         | Inr n \<Rightarrow> Inr (py_max n (Fin 1)))"

text \<open>Line 189.\<close>

definition duty_cycle_of :: "(real \<Rightarrow> fval) \<Rightarrow> fval \<Rightarrow> fval \<Rightarrow> py_error + fval" where
  "duty_cycle_of rnd duration period =
     (if fgt period (Fin 0) then py_truediv rnd duration period else Inr (Fin 0))"

text \<open>Lines 156 to 160.\<close>

definition in_vs_out_rms_of ::
  "(real \<Rightarrow> fval) \<Rightarrow> libraries \<Rightarrow> fval list \<Rightarrow> bool list \<Rightarrow> py_error + fval" where
  "in_vs_out_rms_of rnd lib norm_flux m =
     (case mask_select norm_flux m of Inl e \<Rightarrow> Inl e
      | Inr flux_in \<Rightarrow>
        (case mask_select norm_flux (map Not m) of Inl e \<Rightarrow> Inl e
         | Inr flux_out \<Rightarrow>
           (let out_std = (if flux_out \<noteq> [] then np_std lib flux_out else Fin 0);
                in_std = (if flux_in \<noteq> [] then np_std lib flux_in else Fin 0)
            in Inr (if truthy out_std then fdiv rnd in_std out_std else Fin 1))))"

text \<open>Lines 166 to 171.\<close>

definition secondary_snr_of :: "(real \<Rightarrow> fval) \<Rightarrow> fval list \<Rightarrow> fval \<Rightarrow> fval" where
  "secondary_snr_of rnd pw best_power =
     (let second_best_power = (if length pw > 1 then np_sort pw ! (length pw - 2) else Fin 0)
      in if truthy best_power then fdiv rnd second_best_power best_power else Fin 0)"

text \<open>Lines 173 to 184: the transit number of a sample and the ratio of the mean
  depths of the two parities.\<close>

definition transit_numbers :: "(real \<Rightarrow> fval) \<Rightarrow> fval list \<Rightarrow> fval \<Rightarrow> fval \<Rightarrow> int list" where
  "transit_numbers rnd time_arr t0 period =
     (if fgt period (Fin 0)
      then map (\<lambda>t. floor_astype_int
                      (fadd rnd (fdiv rnd (fsub rnd t t0) period) (rnd (1 / 1000000)))) time_arr
      else map (\<lambda>t. 0) time_arr)"

definition odd_even_depth_ratio_of ::
  "(real \<Rightarrow> fval) \<Rightarrow> libraries \<Rightarrow> fval list \<Rightarrow> fval list \<Rightarrow> bool list \<Rightarrow> fval \<Rightarrow> fval \<Rightarrow>
   py_error + fval" where
  "odd_even_depth_ratio_of rnd lib time_arr norm_flux m t0 period =
     (let nums = transit_numbers rnd time_arr t0 period
      in case broadcast_and m (map (\<lambda>k. k mod 2 = 0) nums) of Inl e \<Rightarrow> Inl e
         | Inr odd_mask \<Rightarrow>
           (case broadcast_and m (map (\<lambda>k. k mod 2 = 1) nums) of Inl e \<Rightarrow> Inl e
            | Inr even_mask \<Rightarrow>
                if list_ex id odd_mask \<and> list_ex id even_mask then
                  (case mask_select norm_flux odd_mask of Inl e \<Rightarrow> Inl e
                   | Inr odd_flux \<Rightarrow>
                     (case mask_select norm_flux even_mask of Inl e \<Rightarrow> Inl e
                      | Inr even_flux \<Rightarrow>
                        (let odd_depth = fabs (np_mean lib odd_flux);
                             even_depth = fabs (np_mean lib even_flux)
                         in if truthy even_depth then py_truediv rnd odd_depth even_depth
                            else Inr (Fin 1))))
                else Inr (Fin 1)))"

text \<open>Lines 186 and 187, for the samples before (\<open>flt\<close>) or after (\<open>fgt\<close>) the epoch.\<close>

definition rms_side ::
  "libraries \<Rightarrow> (fval \<Rightarrow> fval \<Rightarrow> bool) \<Rightarrow> fval list \<Rightarrow> fval list \<Rightarrow> fval \<Rightarrow> py_error + fval" where
  "rms_side lib cmp time_arr norm_flux t0 =
     (let side = map (\<lambda>t. cmp t t0) time_arr
      in if list_ex id side
         then (case mask_select norm_flux side of Inl e \<Rightarrow> Inl e
               | Inr fl \<Rightarrow> Inr (np_std lib fl))
         else Inr NaN)"

text \<open>The thirteen features in the order of the dictionary of lines 191 to 205.\<close>

definition derive_features ::
  "(real \<Rightarrow> fval) \<Rightarrow> libraries \<Rightarrow> fval list \<Rightarrow> fval list \<Rightarrow> best_fit \<Rightarrow> fval \<Rightarrow>
   py_error + series" where
  "derive_features rnd lib time_arr norm_flux fit fraction_kept =
     (case in_vs_out_rms_of rnd lib norm_flux (transit_mask_array fit) of Inl e \<Rightarrow> Inl e
      | Inr in_vs_out_rms \<Rightarrow>
      (case n_transits_of rnd time_arr (best_period fit) of Inl e \<Rightarrow> Inl e
       | Inr n_transits \<Rightarrow>
       (case index_at (spectrum fit) (best_idx fit) of Inl e \<Rightarrow> Inl e
        | Inr best_power \<Rightarrow>
        (case odd_even_depth_ratio_of rnd lib time_arr norm_flux (transit_mask_array fit)
                (best_t0 fit) (best_period fit) of Inl e \<Rightarrow> Inl e
         | Inr odd_even_depth_ratio \<Rightarrow>
         (case rms_side lib flt time_arr norm_flux (best_t0 fit) of Inl e \<Rightarrow> Inl e
          | Inr rms_before \<Rightarrow>
          (case rms_side lib fgt time_arr norm_flux (best_t0 fit) of Inl e \<Rightarrow> Inl e
           | Inr rms_after \<Rightarrow>
           (case duty_cycle_of rnd (best_duration fit) (best_period fit) of Inl e \<Rightarrow> Inl e
            | Inr duty_cycle \<Rightarrow>
                Inr [(''period_days'', best_period fit),
                     (''duration_hours'', fmul rnd (best_duration fit) (Fin 24)),
                     (''depth_ppm'', fmul rnd (depth_value fit) (Fin 1000000)),
                     (''snr'', depth_snr fit),
                     (''t0_btjd'', best_t0 fit),
                     (''duty_cycle'', duty_cycle),
                     (''n_transits'', n_transits),
                     (''odd_even_depth_ratio'', odd_even_depth_ratio),
                     (''secondary_snr'', secondary_snr_of rnd (spectrum fit) best_power),
                     (''in_vs_out_rms'', in_vs_out_rms),
                     (''rms_before'', rms_before),
                     (''rms_after'', rms_after),
                     (''data_fraction_kept'', fraction_kept)])))))))"

text \<open>Lines 207 to 210: the metadata keys the caller supplied.\<close>

definition add_meta :: "series \<Rightarrow> (string \<times> fval) list option \<Rightarrow> series" where
  "add_meta features meta_arg =
     (case meta_arg of None \<Rightarrow> features
      | Some m \<Rightarrow>
          fold (\<lambda>key f. case map_of m key of Some v \<Rightarrow> AList.update key v f | None \<Rightarrow> f)
            META_FEATURE_KEYS features)"

definition summary_of :: "series \<Rightarrow> summary_dict" where
  "summary_of f =
     map (\<lambda>k. (k, Some (series_get f k)))
       [''period_days'', ''duration_hours'', ''depth_ppm'', ''snr'', ''t0_btjd'']"

record BLSResult =
  bls_features :: series
  bls_summary :: summary_dict
  bls_warnings :: "string list"

definition build_bls_features ::
  "(real \<Rightarrow> fval) \<Rightarrow> libraries \<Rightarrow> settings \<Rightarrow> fval list \<Rightarrow> fval list \<Rightarrow> fval list option \<Rightarrow>
   (string \<times> fval) list option \<Rightarrow> error + BLSResult" where
  "build_bls_features rnd lib cfg time flux flux_err meta_arg =
     (case condition_sample rnd time flux flux_err of Inl e \<Rightarrow> Inl e
      | Inr c \<Rightarrow>
        (case normalise rnd c of Inl e \<Rightarrow> Inl (PyError e)
         | Inr (norm_flux, norm_flux_err) \<Rightarrow>
           (case period_search rnd lib cfg (c_time c) norm_flux norm_flux_err of
              Inl e \<Rightarrow> Inl (PyError e)
            | Inr fit \<Rightarrow>
              (case derive_features rnd lib (c_time c) norm_flux fit (c_fraction_kept c) of
                 Inl e \<Rightarrow> Inl (PyError e)
               | Inr derived \<Rightarrow>
                   (let features = add_meta derived meta_arg
                    in Inr \<lparr>bls_features = features,
                            bls_summary = summary_of features,
                            bls_warnings = c_warnings c\<rparr>)))))"

subsection \<open>The conditioning in the words of the specification\<close>

text \<open>
  The specification drops the samples with a value that is not finite, requires 200
  samples, and then rejects the samples whose flux is farther from the median than
  5 * 1.4826 * MAD, unless the MAD is zero. \<open>spec_finite_flux\<close> is the flux of the
  samples that are finite, \<open>spec_rejected\<close> the rejection test, evaluated in the
  arithmetic of the machine, and \<open>spec_kept\<close> the flux the clipping keeps.
\<close>

definition spec_finite_flux :: "fval list \<Rightarrow> fval list \<Rightarrow> fval list option \<Rightarrow> fval list" where
  "spec_finite_flux time flux flux_err =
     (case flux_err of
        None \<Rightarrow> map snd (filter (\<lambda>(t, f). isfinite t \<and> isfinite f) (zip time flux))
      | Some err \<Rightarrow>
          map (\<lambda>(t, f, e). f)
            (filter (\<lambda>(t, f, e). isfinite t \<and> isfinite f \<and> isfinite e) (zip time (zip flux err))))"

definition spec_rejected :: "(real \<Rightarrow> fval) \<Rightarrow> fval list \<Rightarrow> fval \<Rightarrow> bool" where
  "spec_rejected rnd flux f =
     fgt (fabs (fsub rnd f (np_median rnd flux)))
         (fmul rnd (fmul rnd (Fin 5) (rnd 1.4826)) (mad rnd flux))"

definition spec_kept :: "(real \<Rightarrow> fval) \<Rightarrow> fval list \<Rightarrow> fval list" where
  "spec_kept rnd flux =
     (if feq (mad rnd flux) (Fin 0) then flux
      else filter (\<lambda>f. \<not> spec_rejected rnd flux f) flux)"

section \<open>Loading the artifacts\<close>

subsection \<open>Strings and paths\<close>

definition startswith :: "string \<Rightarrow> string \<Rightarrow> bool" where
  "startswith s p = (take (length p) s = p)"

definition removeprefix :: "string \<Rightarrow> string \<Rightarrow> string" where
  "removeprefix s p = (if startswith s p then drop (length p) s else s)"

text \<open>
  A Python \<open>str\<close> is represented by its UTF-8 encoding, one \<open>char\<close> per byte. The
  tests above are the same on the encoding as on the code points, since no encoding
  of a code point is a prefix of another.

  \<open>whitespace\<close> lists the encodings of the code points \<open>str.strip()\<close> removes, which
  are those \<open>str.isspace\<close> holds for: U+0009 to U+000D, U+001C to U+0020, U+0085,
  U+00A0, U+1680, U+2000 to U+200A, U+2028, U+2029, U+202F, U+205F and U+3000.
  \<open>strip_left ws s\<close> removes from the front of \<open>s\<close> every leading occurrence of an
  entry of \<open>ws\<close>; the end of the string is stripped on the reversed string with the
  reversed encodings.
\<close>

definition whitespace :: "string list" where
  "whitespace =
     map (\<lambda>c. [c]) [CHR 0x09, CHR 0x0A, CHR 0x0B, CHR 0x0C, CHR 0x0D,
                     CHR 0x1C, CHR 0x1D, CHR 0x1E, CHR 0x1F, CHR 0x20]
     @ [[CHR 0xC2, CHR 0x85], [CHR 0xC2, CHR 0xA0], [CHR 0xE1, CHR 0x9A, CHR 0x80]]
     @ map (\<lambda>c. [CHR 0xE2, CHR 0x80, c])
         [CHR 0x80, CHR 0x81, CHR 0x82, CHR 0x83, CHR 0x84, CHR 0x85, CHR 0x86, CHR 0x87,
          CHR 0x88, CHR 0x89, CHR 0x8A, CHR 0xA8, CHR 0xA9, CHR 0xAF]
     @ [[CHR 0xE2, CHR 0x81, CHR 0x9F], [CHR 0xE3, CHR 0x80, CHR 0x80]]"

definition space_prefix :: "string list \<Rightarrow> string \<Rightarrow> nat" where
  "space_prefix ws s =
     (case find (\<lambda>e. e \<noteq> [] \<and> startswith s e) ws of None \<Rightarrow> 0 | Some e \<Rightarrow> length e)"

function strip_left :: "string list \<Rightarrow> string \<Rightarrow> string" where
  "strip_left ws s =
     (if space_prefix ws s = 0 then s else strip_left ws (drop (space_prefix ws s) s))"
  by pat_completeness auto
termination
proof (relation "measure (\<lambda>(ws, s). length s)")
  show "wf (measure (\<lambda>(ws, s). length s))" by simp
next
  fix ws :: "string list" and s :: string
  assume a: "space_prefix ws s \<noteq> 0"
  have "s \<noteq> []"
  proof
    assume "s = []"
    then have "find (\<lambda>e. e \<noteq> [] \<and> startswith s e) ws = None"
      by (auto simp: find_None_iff startswith_def)
    with a show False by (simp add: space_prefix_def)
  qed
  with a show "((ws, drop (space_prefix ws s) s), (ws, s)) \<in> measure (\<lambda>(ws, s). length s)"
    by simp
qed

declare strip_left.simps [simp del]

definition lstrip :: "string \<Rightarrow> string" where
  "lstrip s = strip_left whitespace s"

definition rstrip :: "string \<Rightarrow> string" where
  "rstrip s = rev (strip_left (map rev whitespace) (rev s))"

definition strip :: "string \<Rightarrow> string" where
  "strip s = rstrip (lstrip s)"

fun split_on :: "char \<Rightarrow> string \<Rightarrow> string list" where
  "split_on c [] = [[]]"
| "split_on c (x # xs) =
     (if x = c then [] # split_on c xs
      else (case split_on c xs of [] \<Rightarrow> [[x]] | y # ys \<Rightarrow> (x # y) # ys))"

text \<open>\<open>s.split('.')[0]\<close>.\<close>

definition split_first :: "char \<Rightarrow> string \<Rightarrow> string" where
  "split_first c s = takeWhile (\<lambda>x. x \<noteq> c) s"

text \<open>
  \<open>Path(p).name\<close>: the last component, where empty components and \<open>.\<close> are
  dropped. \<open>rfind_dot\<close> is \<open>name.rfind('.')\<close>, \<open>None\<close> for \<open>-1\<close>. \<open>stem\<close> and
  \<open>suffix\<close> cut the name at its last dot when that dot is neither the first nor
  the last character.
\<close>

definition path_name :: "string \<Rightarrow> string" where
  "path_name p =
     (case rev (filter (\<lambda>c. c \<noteq> [] \<and> c \<noteq> ''.'') (split_on CHR ''/'' p)) of
        [] \<Rightarrow> [] | n # _ \<Rightarrow> n)"

definition rfind_dot :: "string \<Rightarrow> nat option" where
  "rfind_dot n =
     (let k = length (takeWhile (\<lambda>x. x \<noteq> CHR ''.'') (rev n))
      in if k = length n then None else Some (length n - 1 - k))"

definition path_stem :: "string \<Rightarrow> string" where
  "path_stem p =
     (let n = path_name p in
      case rfind_dot n of None \<Rightarrow> n
      | Some i \<Rightarrow> if 0 < i \<and> i < length n - 1 then take i n else n)"

definition path_suffix :: "string \<Rightarrow> string" where
  "path_suffix p =
     (let n = path_name p in
      case rfind_dot n of None \<Rightarrow> []
      | Some i \<Rightarrow> if 0 < i \<and> i < length n - 1 then drop i n else [])"

definition lower_char :: "char \<Rightarrow> char" where
  "lower_char c =
     (case map_of (zip ''ABCDEFGHIJKLMNOPQRSTUVWXYZ'' ''abcdefghijklmnopqrstuvwxyz'') c of
        Some l \<Rightarrow> l | None \<Rightarrow> c)"

definition lower :: "string \<Rightarrow> string" where
  "lower s = map lower_char s"

subsection \<open>Readers\<close>

text \<open>
  \<open>joblib.load\<close>, \<open>Booster.load_model\<close> and \<open>json.load\<close> on a file of the model
  directory. A reader fails on a file of another kind. The value under the key
  \<open>feature_names\<close> of a JSON object is \<open>None\<close> when the key is absent.
\<close>

definition joblib_load :: "world \<Rightarrow> string \<Rightarrow> py_error + pyobj" where
  "joblib_load w path =
     (case artifacts w path of
        None \<Rightarrow> Inl FileNotFoundError
      | Some (Pickle obj) \<Rightarrow> Inr obj
      | Some _ \<Rightarrow> Inl LibraryError)"

definition Booster_load_model :: "world \<Rightarrow> string \<Rightarrow> py_error + pyobj" where
  "Booster_load_model w path =
     (case artifacts w path of
        Some (BoosterModel f) \<Rightarrow>
          Inr \<lparr>decision_function = None, predict = Some f, transform = None,
               predict_proba = None, is_Booster = True\<rparr>
      | _ \<Rightarrow> Inl LibraryError)"

definition json_load :: "world \<Rightarrow> string \<Rightarrow> py_error + json_doc" where
  "json_load w path =
     (case artifacts w path of
        None \<Rightarrow> Inl FileNotFoundError
      | Some (Json d) \<Rightarrow> Inr d
      | Some _ \<Rightarrow> Inl ValueError)"

definition path_exists :: "world \<Rightarrow> string \<Rightarrow> bool" where
  "path_exists w path = (artifacts w path \<noteq> None)"

text \<open>\<open>joblib.load(path) if path.exists() else None\<close>.\<close>

definition load_if_exists :: "world \<Rightarrow> string \<Rightarrow> py_error + pyobj option" where
  "load_if_exists w path =
     (if path_exists w path
      then (case joblib_load w path of Inl e \<Rightarrow> Inl e | Inr obj \<Rightarrow> Inr (Some obj))
      else Inr None)"

definition load_feature_names :: "world \<Rightarrow> string \<Rightarrow> py_error + string list" where
  "load_feature_names w path =
     (case json_load w path of Inl e \<Rightarrow> Inl e
      | Inr (JsonObject names) \<Rightarrow> Inr (case names of None \<Rightarrow> [] | Some ns \<Rightarrow> ns)
      | Inr (JsonArray items) \<Rightarrow> Inr items
      | Inr JsonOther \<Rightarrow> Inl ValueError)"

definition resolve_suffix :: "string \<Rightarrow> string \<Rightarrow> py_error + string" where
  "resolve_suffix latest_name pfx =
     (let stem = path_stem latest_name in
      if \<not> startswith stem pfx then Inl ValueError else Inr (removeprefix stem pfx))"

subsection \<open>\<open>load_state\<close>\<close>

text \<open>The supervised model: a native booster file by its extension, a pickle otherwise.\<close>

definition load_supervised_model :: "world \<Rightarrow> string \<Rightarrow> py_error + pyobj" where
  "load_supervised_model w latest_name =
     (if lower (path_suffix latest_name) \<in> set [''.json'', ''.ubj'', ''.bin'']
      then Booster_load_model w latest_name
      else (case joblib_load w latest_name of Inl e \<Rightarrow> Inl e
            | Inr obj \<Rightarrow> if \<not> is_Booster obj then Inl TypeError else Inr obj))"

text \<open>The part of \<open>load_state\<close> after the branch on the prefix (lines 88 to 108).\<close>

definition finish_state ::
  "world \<Rightarrow> mode \<Rightarrow> string \<Rightarrow> real \<Rightarrow> string \<Rightarrow> pyobj \<Rightarrow> pyobj option \<Rightarrow> pyobj option \<Rightarrow>
   xgb_module option \<Rightarrow> py_error + artifact_state" where
  "finish_state w md latest_name mtime feature_path mdl scl cal xgb_mod =
     (if \<not> path_exists w feature_path then Inl FileNotFoundError
      else case load_feature_names w feature_path of Inl e \<Rightarrow> Inl e
      | Inr names \<Rightarrow>
          if names = [] then Inl ValueError
          else Inr \<lparr>mode = md, feature_names = names, model = mdl, scaler = scl,
                    calibrator = cal,
                    xgb = (if startswith latest_name ''model_xgb_'' then xgb_mod else None),
                    latest = latest_name, model_path = latest_name,
                    feature_names_path = feature_path,
                    feature_names_version =
                      removeprefix (path_stem feature_path) ''feature_names_'',
                    latest_mtime = mtime\<rparr>)"

definition load_one_class :: "world \<Rightarrow> string \<Rightarrow> real \<Rightarrow> py_error + artifact_state" where
  "load_one_class w latest_name mtime =
     (case resolve_suffix latest_name ''model_iso_'' of Inl e \<Rightarrow> Inl e
      | Inr sfx \<Rightarrow>
        (let suffix = split_first CHR ''.'' sfx;
             feature_path = ''feature_names_'' @ suffix @ ''.json'';
             scaler_path = ''scaler_'' @ suffix @ ''.pkl''
         in case joblib_load w latest_name of Inl e \<Rightarrow> Inl e
            | Inr mdl \<Rightarrow>
              (case load_if_exists w scaler_path of Inl e \<Rightarrow> Inl e
               | Inr scl \<Rightarrow>
                   finish_state w one_class latest_name mtime feature_path mdl scl None None)))"

definition load_supervised :: "world \<Rightarrow> string \<Rightarrow> real \<Rightarrow> py_error + artifact_state" where
  "load_supervised w latest_name mtime =
     (case resolve_suffix latest_name ''model_xgb_'' of Inl e \<Rightarrow> Inl e
      | Inr sfx \<Rightarrow>
        (let suffix = split_first CHR ''.'' sfx;
             feature_path = ''feature_names_'' @ suffix @ ''.json'';
             scaler_path = ''scaler_'' @ suffix @ ''.pkl'';
             calibrator_path = ''calibrator_'' @ suffix @ ''.pkl''
         in case xgboost w of None \<Rightarrow> Inl RuntimeError
            | Some xgb_mod \<Rightarrow>
              (case load_supervised_model w latest_name of Inl e \<Rightarrow> Inl e
               | Inr mdl \<Rightarrow>
                 (case load_if_exists w scaler_path of Inl e \<Rightarrow> Inl e
                  | Inr scl \<Rightarrow>
                    (case load_if_exists w calibrator_path of Inl e \<Rightarrow> Inl e
                     | Inr cal \<Rightarrow>
                         finish_state w supervised latest_name mtime feature_path mdl scl cal
                           (Some xgb_mod))))))"

text \<open>
  The name the pointer file holds (\<open>latest.txt\<close>, stripped). Creating the model
  directory when it is missing changes nothing that is read afterwards.
\<close>

definition load_state_result :: "world \<Rightarrow> py_error + artifact_state" where
  "load_state_result w =
     (case pointer w of None \<Rightarrow> Inl FileNotFoundError
      | Some (text, mtime) \<Rightarrow>
        (let latest_name = strip text in
         if latest_name = [] then Inl ValueError
         else if \<not> path_exists w latest_name then Inl FileNotFoundError
         else if startswith latest_name ''model_iso_'' then load_one_class w latest_name mtime
         else if startswith latest_name ''model_xgb_'' then load_supervised w latest_name mtime
         else Inl ValueError))"

definition load_state :: "settings \<Rightarrow> world \<Rightarrow> (py_error + artifact_state) \<times> world" where
  "load_state cfg w = (load_state_result w, log_event LoadArtifacts w)"

section \<open>The inference service\<close>

record service =
  svc_settings :: settings
  svc_state :: "artifact_state option"

text \<open>The load of \<open>refresh\<close> and the swap of the shared state.\<close>

definition reload ::
  "service \<Rightarrow> world \<Rightarrow> (py_error + artifact_state) \<times> service \<times> world" where
  "reload svc w =
     (case load_state (svc_settings svc) w of
        (Inl e, w') \<Rightarrow> (Inl e, svc, w')
      | (Inr st, w') \<Rightarrow> (Inr st, svc\<lparr>svc_state := Some st\<rparr>, w'))"

definition InferenceService_refresh ::
  "service \<Rightarrow> bool \<Rightarrow> world \<Rightarrow> (py_error + artifact_state) \<times> service \<times> world" where
  "InferenceService_refresh svc force w =
     (case pointer w of None \<Rightarrow> (Inl FileNotFoundError, svc, w)
      | Some (text, current_mtime) \<Rightarrow>
        (case svc_state svc of
           None \<Rightarrow> reload svc w
         | Some st \<Rightarrow>
             if force \<or> current_mtime > latest_mtime st then reload svc w
             else (Inr st, svc, w)))"

text \<open>The constructor: a first, forced refresh.\<close>

definition InferenceService_init ::
  "settings \<Rightarrow> world \<Rightarrow> (py_error + artifact_state) \<times> service \<times> world" where
  "InferenceService_init cfg w =
     InferenceService_refresh \<lparr>svc_settings = cfg, svc_state = None\<rparr> True w"

record model_info =
  mi_mode :: mode
  mi_latest :: string
  mi_artifact_dir :: string
  mi_feature_names_version :: string
  mi_feature_count :: nat
  mi_has_scaler :: bool
  mi_has_calibrator :: bool
  mi_is_probability :: bool

definition model_info_of :: "settings \<Rightarrow> artifact_state \<Rightarrow> model_info" where
  "model_info_of cfg state =
     \<lparr>mi_mode = mode state, mi_latest = latest state, mi_artifact_dir = model_dir cfg,
      mi_feature_names_version = feature_names_version state,
      mi_feature_count = length (feature_names state),
      mi_has_scaler = (scaler state \<noteq> None),
      mi_has_calibrator = (calibrator state \<noteq> None),
      mi_is_probability = (mode state = supervised)\<rparr>"

definition InferenceService_model_info ::
  "service \<Rightarrow> world \<Rightarrow> (py_error + model_info) \<times> service \<times> world" where
  "InferenceService_model_info svc w =
     (case InferenceService_refresh svc False w of
        (Inl e, svc', w') \<Rightarrow> (Inl e, svc', w')
      | (Inr state, svc', w') \<Rightarrow> (Inr (model_info_of (svc_settings svc) state), svc', w'))"

section \<open>The light-curve store\<close>

definition get_lightcurve_by_tic ::
  "int \<Rightarrow> world \<Rightarrow> (py_error + fval list \<times> fval list \<times> fval list option) \<times> world" where
  "get_lightcurve_by_tic tic w0 =
     (let w = log_event (ReadLightcurve tic) w0
      in case lightcurves w tic of
           None \<Rightarrow> (Inl FileNotFoundError, w)
         | Some df \<Rightarrow>
             (case (col_time df, col_flux df) of
                (Some t, Some f) \<Rightarrow> (Inr (t, f, col_flux_err df), w)
              | _ \<Rightarrow> (Inl ValueError, w)))"

definition read_cached_features :: "int \<Rightarrow> world \<Rightarrow> series option \<times> world" where
  "read_cached_features tic w0 =
     (let w = log_event (ReadFeatureCache tic) w0
      in case feature_cache w tic of
           None \<Rightarrow> (None, w)
         | Some rows \<Rightarrow>
             (case rows of [] \<Rightarrow> (None, w)
              | r # _ \<Rightarrow> if r = [] then (None, w) else (Some r, w)))"

definition write_cached_features :: "int \<Rightarrow> series \<Rightarrow> world \<Rightarrow> world" where
  "write_cached_features tic features w0 =
     (let w = log_event (WriteFeatureCache tic) w0
      in w\<lparr>feature_cache := (feature_cache w)(tic \<mapsto> [features])\<rparr>)"

text \<open>A download either stores the light curve of the archive or raises.\<close>

definition fetch_lightcurve_from_mast :: "int \<Rightarrow> world \<Rightarrow> (py_error + unit) \<times> world" where
  "fetch_lightcurve_from_mast tic w0 =
     (let w = log_event (FetchLightcurve tic) w0
      in case mast w tic of
           None \<Rightarrow> (Inl RuntimeError, w)
         | Some df \<Rightarrow> (Inr (), w\<lparr>lightcurves := (lightcurves w)(tic \<mapsto> df)\<rparr>))"

section \<open>Predictions\<close>

definition InferenceService_compute_features ::
  "(real \<Rightarrow> fval) \<Rightarrow> libraries \<Rightarrow> settings \<Rightarrow> fval list \<Rightarrow> fval list \<Rightarrow> fval list option \<Rightarrow>
   (string \<times> fval) list option \<Rightarrow> error + BLSResult" where
  "InferenceService_compute_features rnd lib cfg time flux flux_err meta_arg =
     (case build_bls_features rnd lib cfg time flux flux_err meta_arg of
        Inl InsufficientDataError \<Rightarrow> Inl InsufficientDataError
      | Inl e \<Rightarrow> Inl (FeatureExtractionError e)
      | Inr r \<Rightarrow> Inr r)"

text \<open>Lines 80 to 91 of \<open>predict_by_tic\<close>: the arrays and whether they were fetched.\<close>

definition acquire_lightcurve ::
  "settings \<Rightarrow> int \<Rightarrow> world \<Rightarrow>
   (error + (fval list \<times> fval list \<times> fval list option) \<times> bool) \<times> world" where
  "acquire_lightcurve cfg tic w =
     (case get_lightcurve_by_tic tic w of
        (Inr arrays, w1) \<Rightarrow> (Inr (arrays, False), w1)
      | (Inl exc, w1) \<Rightarrow>
          if exc \<noteq> FileNotFoundError then (Inl (PyError exc), w1)
          else if \<not> auto_fetch_missing cfg
          then (Inl (LightcurveNotFoundError (PyError exc)), w1)
          else (case fetch_lightcurve_from_mast tic w1 of
                  (Inl fetch_exc, w2) \<Rightarrow> (Inl (LightcurveNotFoundError (PyError fetch_exc)), w2)
                | (Inr _, w2) \<Rightarrow>
                    (case get_lightcurve_by_tic tic w2 of
                       (Inl fetch_exc, w3) \<Rightarrow>
                         (Inl (LightcurveNotFoundError (PyError fetch_exc)), w3)
                     | (Inr arrays, w3) \<Rightarrow> (Inr (arrays, True), w3))))"

text \<open>Lines 93 to 116: the features, the summary, the warnings and the cache flag.\<close>

definition features_for ::
  "(real \<Rightarrow> fval) \<Rightarrow> libraries \<Rightarrow> settings \<Rightarrow> int \<Rightarrow>
   fval list \<times> fval list \<times> fval list option \<Rightarrow> bool \<Rightarrow>
   world \<Rightarrow> (error + series \<times> summary_dict \<times> string list \<times> bool) \<times> world" where
  "features_for rnd lib cfg tic arrays auto_fetch w =
     (case (if auto_fetch then (None, w) else read_cached_features tic w) of
        (Some cached, w1) \<Rightarrow>
          (Inr (cached, InferenceService_summary_from_features cached, [], True), w1)
      | (None, w1) \<Rightarrow>
          (case arrays of (time_arr, flux_arr, flux_err_arr) \<Rightarrow>
             (case InferenceService_compute_features rnd lib cfg time_arr flux_arr flux_err_arr None of
                Inl InsufficientDataError \<Rightarrow> (Inl InsufficientDataError, w1)
              | Inl exc \<Rightarrow> (Inl (FeatureExtractionError exc), w1)
              | Inr r \<Rightarrow>
                  (Inr (bls_features r, bls_summary r, bls_warnings r, False),
                   write_cached_features tic (bls_features r) w1))))"

definition InferenceService_predict_by_tic ::
  "(real \<Rightarrow> fval) \<Rightarrow> libraries \<Rightarrow> service \<Rightarrow> int \<Rightarrow> world \<Rightarrow>
   (error + response) \<times> service \<times> world" where
  "InferenceService_predict_by_tic rnd lib svc tic w =
     (case InferenceService_refresh svc False w of
        (Inl e, svc', w1) \<Rightarrow> (Inl (PyError e), svc', w1)
      | (Inr state, svc', w1) \<Rightarrow>
        (case monotonic_ms w1 of (start_ms, w2) \<Rightarrow>
          (case acquire_lightcurve (svc_settings svc) tic w2 of
             (Inl e, w3) \<Rightarrow> (Inl e, svc', w3)
           | (Inr (arrays, auto_fetch), w3) \<Rightarrow>
             (case features_for rnd lib (svc_settings svc) tic arrays auto_fetch w3 of
                (Inl e, w4) \<Rightarrow> (Inl e, svc', w4)
              | (Inr (features_series, summary, warnings, cache_hit), w4) \<Rightarrow>
                (case arrays of (time_arr, flux_arr, flux_err_arr) \<Rightarrow>
                  (case InferenceService_prepare_lightcurve time_arr flux_arr flux_err_arr of
                     Inl e \<Rightarrow> (Inl (PyError e), svc', w4)
                   | Inr lightcurve_payload \<Rightarrow>
                     (case InferenceService_score rnd (svc_settings svc) features_series summary
                             warnings (Some tic) start_ms state (Some cache_hit) auto_fetch
                             (Some lightcurve_payload) w4 of
                        (Inl e, w5) \<Rightarrow> (Inl (PyError e), svc', w5)
                      | (Inr r, w5) \<Rightarrow> (Inr r, svc', w5))))))))"

definition InferenceService_predict_from_arrays ::
  "(real \<Rightarrow> fval) \<Rightarrow> libraries \<Rightarrow> service \<Rightarrow> fval list \<Rightarrow> fval list \<Rightarrow> fval list option \<Rightarrow>
   (string \<times> fval) list option \<Rightarrow> world \<Rightarrow> (error + response) \<times> service \<times> world" where
  "InferenceService_predict_from_arrays rnd lib svc time flux flux_err meta_arg w =
     (case InferenceService_refresh svc False w of
        (Inl e, svc', w1) \<Rightarrow> (Inl (PyError e), svc', w1)
      | (Inr state, svc', w1) \<Rightarrow>
        (case monotonic_ms w1 of (start_ms, w2) \<Rightarrow>
          (case InferenceService_compute_features rnd lib (svc_settings svc) time flux flux_err
                  meta_arg of
             Inl e \<Rightarrow> (Inl e, svc', w2)
           | Inr r \<Rightarrow>
             (case InferenceService_prepare_lightcurve time flux flux_err of
                Inl e \<Rightarrow> (Inl (PyError e), svc', w2)
              | Inr lightcurve_payload \<Rightarrow>
                (case InferenceService_score rnd (svc_settings svc) (bls_features r)
                        (bls_summary r) (bls_warnings r) None start_ms state (Some False) False
                        (Some lightcurve_payload) w2 of
                   (Inl e, w3) \<Rightarrow> (Inl (PyError e), svc', w3)
                 | (Inr resp, w3) \<Rightarrow> (Inr resp, svc', w3))))))"

section \<open>The HTTP boundary\<close>

text \<open>
  The handler of \<open>/predict/by_tic\<close>. An exception it does not catch leaves the
  handler (\<open>Unhandled\<close>). The query parameter is validated (\<open>ge=1\<close>) before the
  handler runs, and the response model checks that the arrays of the light curve
  have one length.
\<close>

datatype http_result =
    Ok200 response
  | HTTPException nat
  | Unhandled error

definition valid_lightcurve :: "lc_payload option \<Rightarrow> bool" where
  "valid_lightcurve lc =
     (case lc of None \<Rightarrow> True
      | Some p \<Rightarrow> length (lp_time p) = length (lp_flux p) \<and>
          (case lp_flux_err p of None \<Rightarrow> True | Some e \<Rightarrow> length e = length (lp_time p)))"

definition PredictionResponse :: "response \<Rightarrow> py_error + response" where
  "PredictionResponse r = (if valid_lightcurve (resp_lightcurve r) then Inr r else Inl ValueError)"

definition http_of :: "error + response \<Rightarrow> http_result" where
  "http_of res =
     (case res of
        Inr payload \<Rightarrow>
          (case PredictionResponse payload of Inr r \<Rightarrow> Ok200 r
           | Inl e \<Rightarrow> Unhandled (PyError e))
      | Inl (LightcurveNotFoundError c) \<Rightarrow> HTTPException 404
      | Inl InsufficientDataError \<Rightarrow> HTTPException 422
      | Inl (FeatureExtractionError c) \<Rightarrow> HTTPException 500
      | Inl e \<Rightarrow> Unhandled e)"

definition main_predict_by_tic ::
  "(real \<Rightarrow> fval) \<Rightarrow> libraries \<Rightarrow> service \<Rightarrow> int \<Rightarrow> world \<Rightarrow> http_result \<times> service \<times> world" where
  "main_predict_by_tic rnd lib svc tic w =
     (if tic < 1 then (HTTPException 422, svc, w)
      else case InferenceService_predict_by_tic rnd lib svc tic w of
             (res, svc', w') \<Rightarrow> (http_of res, svc', w'))"

section \<open>Concrete inputs\<close>

text \<open>A one-class artifact bundle, a supervised bundle with a calibrator, and worlds
  with and without the pointer file.\<close>

definition cfg0 :: settings where
  "cfg0 = \<lparr>model_dir = ''/data/model'', processed_dir = ''/data/processed'',
            interim_dir = ''/data/interim'', period_min = Fin (1 / 2), period_max = Fin 30,
            n_periods = 5000, dur_min_hours = Fin (1 / 2), dur_max_hours = Fin 10,
            auto_fetch_missing = False\<rparr>"

definition iso_model :: pyobj where
  "iso_model = \<lparr>decision_function = Some (\<lambda>a X. Inr [Fin 0]), predict = None,
                 transform = None, predict_proba = None, is_Booster = False\<rparr>"

definition std_scaler :: pyobj where
  "std_scaler = \<lparr>decision_function = None, predict = None, transform = Some (\<lambda>a X. Inr X),
                  predict_proba = None, is_Booster = False\<rparr>"

definition iso_state :: artifact_state where
  "iso_state = \<lparr>mode = one_class, feature_names = [''period_days'', ''tmag''],
                 model = iso_model, scaler = Some std_scaler, calibrator = None, xgb = None,
                 latest = ''model_iso_v2.pkl'', model_path = ''model_iso_v2.pkl'',
                 feature_names_path = ''feature_names_v2.json'',
                 feature_names_version = ''v2'', latest_mtime = 100\<rparr>"

definition iso_files :: "string \<Rightarrow> artifact_file option" where
  "iso_files = [''model_iso_v2.pkl'' \<mapsto> Pickle iso_model,
                ''feature_names_v2.json'' \<mapsto> Json (JsonArray [''period_days'', ''tmag'']),
                ''scaler_v2.pkl'' \<mapsto> Pickle std_scaler]"

definition w_none :: world where
  "w_none = \<lparr>pointer = None, artifacts = iso_files, xgboost = None,
              lightcurves = (\<lambda>t. None), feature_cache = (\<lambda>t. None), mast = (\<lambda>t. None),
              clock = (\<lambda>n. int n), ticks = 0, ambient = (\<lambda>n. n), calls = 0, trace = []\<rparr>"

definition w_iso :: world where
  "w_iso = w_none\<lparr>pointer := Some (''model_iso_v2.pkl'' @ [CHR 0x0A], 100)\<rparr>"

definition svc_iso :: service where
  "svc_iso = \<lparr>svc_settings = cfg0, svc_state = Some iso_state\<rparr>"

definition xgb0 :: xgb_module where
  "xgb0 = \<lparr>DMatrix = (\<lambda>a X names. Inr (X, names))\<rparr>"

definition booster0 :: pyobj where
  "booster0 = \<lparr>decision_function = None, predict = Some (\<lambda>a dm. Inr [Fin (9 / 10)]),
                transform = None, predict_proba = None, is_Booster = True\<rparr>"

definition calibrator0 :: pyobj where
  "calibrator0 = \<lparr>decision_function = None, predict = None, transform = None,
                   predict_proba =
                     Some (\<lambda>a X. Inr (map (\<lambda>row. map (fsub exact (Fin 1)) row @ row) X)),
                   is_Booster = False\<rparr>"

definition sup_state :: artifact_state where
  "sup_state = \<lparr>mode = supervised, feature_names = [''a''], model = booster0, scaler = None,
                 calibrator = Some calibrator0, xgb = Some xgb0,
                 latest = ''model_xgb_v1.pkl'', model_path = ''model_xgb_v1.pkl'',
                 feature_names_path = ''feature_names_v1.json'',
                 feature_names_version = ''v1'', latest_mtime = 100\<rparr>"

text \<open>
  The libraries of a machine of unbounded precision: the mean, the standard
  deviation and the grid computed without rounding, and a box least squares search
  that finds the same best fit in every light curve.
\<close>

definition mean0 :: "fval list \<Rightarrow> fval" where
  "mean0 xs = fdiv exact (foldl (fadd exact) (Fin 0) xs) (Fin (real (length xs)))"

fun fsqrt :: "fval \<Rightarrow> fval" where
  "fsqrt (Fin a) = (if a < 0 then NaN else Fin (sqrt a))"
| "fsqrt PInf = PInf"
| "fsqrt NInf = NaN"
| "fsqrt NaN = NaN"

definition std0 :: "fval list \<Rightarrow> fval" where
  "std0 xs =
     (let m = mean0 xs
      in fsqrt (mean0 (map (\<lambda>x. fmul exact (fabs (fsub exact x m)) (fabs (fsub exact x m))) xs)))"

definition linspace0 :: "fval \<Rightarrow> fval \<Rightarrow> nat \<Rightarrow> fval list" where
  "linspace0 a b n =
     (case (a, b) of
        (Fin x, Fin y) \<Rightarrow>
          if n = 1 then [Fin x]
          else map (\<lambda>i. Fin (x + real i * (y - x) / real (n - 1))) [0..<n]
      | _ \<Rightarrow> replicate n NaN)"

definition lib0 :: libraries where
  "lib0 = \<lparr>np_mean = mean0, np_std = std0, np_linspace = linspace0,
            bls_power = (\<lambda>t f e ps ds.
               Inr \<lparr>res_period = [Fin 2], res_duration = [Fin (1 / 10)],
                    res_transit_time = [Fin 0], res_depth = [Fin (1 / 100)],
                    res_power = [Fin 5]\<rparr>),
            bls_compute_stats = (\<lambda>t f e p d t0.
               Inr \<lparr>sv_depth = None, sv_depth_snr = None, sv_transit_mask = None\<rparr>),
            bls_transit_mask = (\<lambda>t p d t0. Inr (map (\<lambda>x. False) t))\<rparr>"

text \<open>A light curve of 200 samples with a constant flux, the best fit \<open>lib0\<close> gives
  for it, a best fit with period zero, and a world where the light curve of TIC 7 is
  only in the archive while the feature cache holds a row for it.\<close>

definition t200 :: "fval list" where "t200 = map (\<lambda>i. Fin (real i)) [0..<200]"

definition f200 :: "fval list" where "f200 = replicate 200 (Fin 1)"


definition fit0 :: best_fit where
  "fit0 = \<lparr>best_period = Fin 2, best_duration = Fin (1 / 10), best_t0 = Fin 0,
            depth_value = Fin (1 / 100), depth_snr = Fin 5,
            transit_mask_array = map (\<lambda>x. False) t200, spectrum = [Fin 5], best_idx = 0\<rparr>"

definition fitA :: best_fit where
  "fitA = \<lparr>best_period = Fin 0, best_duration = Fin (1 / 10), best_t0 = Fin 0,
            depth_value = Fin (1 / 100), depth_snr = Fin 5,
            transit_mask_array = [False, True], spectrum = [Fin 5], best_idx = 0\<rparr>"

definition cfg_fetch :: settings where
  "cfg_fetch = cfg0\<lparr>auto_fetch_missing := True\<rparr>"

definition svc_fetch :: service where
  "svc_fetch = \<lparr>svc_settings = cfg_fetch, svc_state = Some iso_state\<rparr>"

definition df200 :: lc_table where
  "df200 = \<lparr>col_time = Some t200, col_flux = Some f200, col_flux_err = None\<rparr>"

definition w_fetch :: world where
  "w_fetch = w_iso\<lparr>mast := [7 \<mapsto> df200],
                    feature_cache := [7 \<mapsto> [[(''period_days'', Fin 99)]]]\<rparr>"

text \<open>
  A machine with ten binary places that rounds toward minus infinity, and two flux
  arrays with a sample at \<open>96.369\<close>, which is \<open>5 * 1.4826 * 13\<close>: on this machine,
  as in binary64, the rounded threshold falls below the sample; without rounding
  the sample is on the threshold.
\<close>

definition round_down10 :: "real \<Rightarrow> fval" where
  "round_down10 x = Fin (real_of_int \<lfloor>x * 1024\<rfloor> / 1024)"

definition flux7 :: "fval list" where
  "flux7 = [Fin (- 26), Fin (- 13), Fin (- 13), Fin 0, Fin 13, Fin 13, Fin 96.369]"

definition flux200 :: "fval list" where
  "flux200 = replicate 66 (Fin (- 13)) @ replicate 67 (Fin 0) @ replicate 66 (Fin 13)
             @ [Fin 96.369]"

text \<open>
  A one-class bundle whose model keeps a count of its calls and gives it as its
  decision value: an estimator that is not a function of its argument.
\<close>

definition counting_model :: pyobj where
  "counting_model = \<lparr>decision_function = Some (\<lambda>a X. Inr [Fin (real a)]), predict = None,
                      transform = None, predict_proba = None, is_Booster = False\<rparr>"

definition counting_state :: artifact_state where
  "counting_state = iso_state\<lparr>model := counting_model, scaler := None\<rparr>"

text \<open>
  The model directory of the supervised bundle, with xgboost installed; a pointer
  file whose text has a no-break space (U+00A0) before the name and a line feed
  after it; and a pointer file that names an existing file of another prefix.
\<close>

definition xgb_files :: "string \<Rightarrow> artifact_file option" where
  "xgb_files = [''model_xgb_v1.pkl'' \<mapsto> Pickle booster0,
                ''feature_names_v1.json'' \<mapsto> Json (JsonObject (Some [''a''])),
                ''calibrator_v1.pkl'' \<mapsto> Pickle calibrator0]"

definition w_xgb :: world where
  "w_xgb = w_none\<lparr>pointer := Some (''model_xgb_v1.pkl'', 100), artifacts := xgb_files,
                   xgboost := Some xgb0\<rparr>"

definition w_nbsp :: world where
  "w_nbsp = w_none\<lparr>pointer := Some ([CHR 0xC2, CHR 0xA0] @ ''model_iso_v2.pkl'' @ [CHR 0x0A], 100)\<rparr>"

definition w_rf :: world where
  "w_rf = w_none\<lparr>pointer := Some (''model_rf_v2.pkl'', 100),
                  artifacts := iso_files(''model_rf_v2.pkl'' \<mapsto> Pickle iso_model)\<rparr>"

section \<open>Serialisation of the outputs\<close>

text \<open>What the two serialisers do achieve: the summary payload holds finite values
  and nulls only, and the feature payload holds no NaN.\<close>

lemma set_update_subset: "set (AList.update k v al) \<subseteq> insert (k, v) (set al)"
  by (induction al) auto

lemma fold_update_values:
  assumes "\<And>k v. (k, v) \<in> set acc \<Longrightarrow> P v" and "\<And>x. P (g x)"
  shows "(k, v) \<in> set (fold (\<lambda>(key, x) p. AList.update key (g x) p) s acc) \<Longrightarrow> P v"
  using assms(1)
proof (induction s arbitrary: acc)
  case Nil
  then show ?case by simp
next
  case (Cons a s)
  obtain key x where a: "a = (key, x)" by (cases a)
  have "\<And>k' v'. (k', v') \<in> set (AList.update key (g x) acc) \<Longrightarrow> P v'"
    using set_update_subset[of key "g x" acc] Cons.prems(2) assms(2) by blast
  then show ?case using Cons.IH[of "AList.update key (g x) acc"] Cons.prems(1) by (simp add: a)
qed

lemma serialize_summary_finite:
  assumes "(k, Some v) \<in> set (InferenceService_serialize_summary s)"
  shows "isfinite v"
proof -
  let ?g = "\<lambda>x. case x of None \<Rightarrow> None | Some y \<Rightarrow> if isnan y \<or> isinf y then None else Some y"
  have g: "\<And>x. (case ?g x of None \<Rightarrow> True | Some y \<Rightarrow> isfinite y)"
  proof -
    fix x show "case ?g x of None \<Rightarrow> True | Some y \<Rightarrow> isfinite y"
      by (cases x) (auto split: option.splits elim: isnan.elims isinf.elims isfinite.elims)
  qed
  have "case Some v of None \<Rightarrow> True | Some y \<Rightarrow> isfinite y"
    by (rule fold_update_values[where P = "\<lambda>ov. case ov of None \<Rightarrow> True | Some y \<Rightarrow> isfinite y"
          and g = ?g and acc = "[]" and s = s and k = k])
       (use assms g in \<open>auto simp: InferenceService_serialize_summary_def\<close>)
  then show ?thesis by simp
qed

lemma serialize_series_not_nan:
  assumes "(k, Some v) \<in> set (InferenceService_serialize_series s)"
  shows "\<not> isnan v"
proof -
  let ?g = "\<lambda>x. if pd_isna x then None else Some x"
  have "case Some v of None \<Rightarrow> True | Some y \<Rightarrow> \<not> isnan y"
    by (rule fold_update_values[where P = "\<lambda>ov. case ov of None \<Rightarrow> True | Some y \<Rightarrow> \<not> isnan y"
          and g = ?g and acc = "[]" and s = s and k = k])
       (use assms in \<open>auto simp: InferenceService_serialize_series_def pd_isna_def\<close>)
  then show ?thesis by simp
qed

text \<open>
  C1. Every value of the feature payload and of the summary payload of a response
  of \<open>_score\<close> that is NaN or an infinity is replaced by the null value.

  The summary payload does so; the feature payload tests \<open>pd.isna\<close> only, which is
  false for an infinity. With the feature \<open>tmag = +inf\<close> the response of the
  one-class bundle carries the infinity itself.
\<close>

theorem score_feature_payload_keeps_infinity:
  "map_sum id resp_features
     (fst (InferenceService_score exact cfg0 [(''period_days'', Fin 3), (''tmag'', PInf)]
             [] [] None 0 iso_state None False None w_iso))
   = Inr [(''period_days'', Some (Fin 3)), (''tmag'', Some PInf)]"
  by (simp add: InferenceService_score_def model_input_def iso_state_def iso_model_def
      std_scaler_def score_one_class_def call_method_def call_library_def index0_def elapsed_ms_def
      monotonic_ms_def log_event_def w_iso_def w_none_def exact_def
      InferenceService_serialize_series_def pd_isna_def reindex_def series_get_def)

section \<open>Determinism of the score\<close>

lemma call_method_ignores:
  assumes "ignores_ambient (Some f)"
  shows "call_method (Some f) x w = (f 0 x, w\<lparr>calls := Suc (calls w)\<rparr>)"
proof -
  from assms have "f (ambient w (calls w)) = f 0" by (simp add: ignores_ambient_def)
  then show ?thesis by (simp add: call_method_def call_library_def)
qed

lemma call_library_ignores:
  assumes "ignores_ambient (Some g)"
  shows "call_library (\<lambda>a. g a x y) w = (g 0 x y, w\<lparr>calls := Suc (calls w)\<rparr>)"
proof -
  from assms have "g (ambient w (calls w)) = g 0" by (simp add: ignores_ambient_def)
  then show ?thesis by (simp add: call_library_def)
qed

lemma call_method_None: "call_method None x w = (Inl AttributeError, w)"
  by (simp add: call_method_def)

lemma model_input_det:
  "deterministic state \<Longrightarrow> fst (model_input state fs w) = fst (model_input state fs w')"
  by (cases "scaler state"; cases "transform (the (scaler state))")
     (auto simp: model_input_def deterministic_def call_method_ignores call_method_None Let_def)

lemma score_one_class_det:
  "deterministic state \<Longrightarrow>
   fst (score_one_class rnd state X w) = fst (score_one_class rnd state X w')"
  by (cases "decision_function (model state)")
     (auto simp: score_one_class_def deterministic_def call_method_ignores call_method_None
      split: sum.splits)

lemma score_supervised_det:
  "deterministic state \<Longrightarrow>
   fst (score_supervised state X w) = fst (score_supervised state X w')"
  by (cases "xgb state"; cases "predict (model state)"; cases "calibrator state";
      cases "predict_proba (the (calibrator state))")
     (auto simp: score_supervised_def deterministic_def call_method_ignores call_method_None
      call_library_ignores split: sum.splits)

lemma score_det:
  assumes "deterministic state"
  shows "map_sum id resp_score
     (fst (InferenceService_score rnd cfg features summary warnings tic start_ms state cache_hit
             auto_fetch lightcurve w))
   = map_sum id resp_score
     (fst (InferenceService_score rnd cfg' features summary' warnings' tic' start_ms' state
             cache_hit' auto_fetch' lightcurve' w'))"
proof -
  let ?w = "log_event ScoreCall w" and ?w' = "log_event ScoreCall w'"
  obtain a w1 where a: "model_input state features ?w = (a, w1)" by (cases "model_input state features ?w")
  obtain a' w1' where a': "model_input state features ?w' = (a', w1')" by (cases "model_input state features ?w'")
  from model_input_det[OF assms, of features ?w ?w'] a a' have aa: "a' = a" by simp
  show ?thesis
  proof (cases a)
    case (Inl e)
    then show ?thesis using a a' aa by (simp add: InferenceService_score_def)
  next
    case (Inr X)
    let ?s = "\<lambda>w. if mode state = one_class then score_one_class rnd state X w
               else score_supervised state X w"
    obtain b w2 where b: "?s w1 = (b, w2)" by (cases "?s w1")
    obtain b' w2' where b': "?s w1' = (b', w2')" by (cases "?s w1'")
    have "fst (?s w1) = fst (?s w1')"
      using score_one_class_det[OF assms] score_supervised_det[OF assms] by auto
    with b b' have bb: "b' = b" by simp
    show ?thesis using a a' aa Inr b b' bb
      by (cases b) (auto simp: InferenceService_score_def elapsed_ms_def monotonic_ms_def split: prod.splits)
  qed
qed

text \<open>
  C8 (as amended). When the estimators of the artifact state are deterministic, two
  consecutive calls of the scoring path with the same feature vector and the same
  artifact state give the same score (or raise the same exception): the second call
  starts in the world the first one leaves. The same holds for any two calls with
  that feature vector and that state, whatever the clock reads and whatever else
  the two calls are given.
\<close>

theorem score_deterministic:
  assumes "deterministic state"
  shows "map_sum id resp_score
           (fst (InferenceService_score rnd cfg features summary warnings tic start_ms state
                   cache_hit auto_fetch lightcurve w))
         = map_sum id resp_score
           (fst (InferenceService_score rnd cfg features summary warnings tic start_ms state
                   cache_hit auto_fetch lightcurve
                   (snd (InferenceService_score rnd cfg features summary warnings tic start_ms
                           state cache_hit auto_fetch lightcurve w))))
       \<and> map_sum id resp_score
           (fst (InferenceService_score rnd cfg features summary warnings tic start_ms state
                   cache_hit auto_fetch lightcurve w))
         = map_sum id resp_score
           (fst (InferenceService_score rnd cfg' features summary' warnings' tic' start_ms' state
                   cache_hit' auto_fetch' lightcurve' w'))"
  using score_det[OF assms] by blast

lemma iso_score:
  "fst (InferenceService_score exact cfg0 [(''period_days'', Fin 3), (''tmag'', Fin 10)] [] []
          None 0 iso_state None False None w)
   = Inr \<lparr>resp_tic_id = None, resp_mode = one_class, resp_is_probability = False,
          resp_score = Fin (1 / 2), resp_summary = [],
          resp_features = [(''period_days'', Some (Fin 3)), (''tmag'', Some (Fin 10))],
          resp_warnings = [],
          resp_meta = \<lparr>meta_artifact_dir = ''/data/model'', meta_feature_names_version = ''v2'',
            meta_runtime_ms = max 0 (clock w (ticks w)), meta_cache_hit = None,
            meta_auto_fetch = False\<rparr>,
          resp_lightcurve = None\<rparr>"
  by (simp add: InferenceService_score_def model_input_def iso_state_def iso_model_def
      std_scaler_def score_one_class_def call_method_def call_library_def index0_def elapsed_ms_def
      monotonic_ms_def log_event_def exact_def cfg0_def
      InferenceService_serialize_series_def InferenceService_serialize_summary_def
      pd_isna_def reindex_def series_get_def)

theorem score_deterministic_witness:
  "deterministic iso_state
   \<and> map_sum id resp_score
       (fst (InferenceService_score exact cfg0 [(''period_days'', Fin 3), (''tmag'', Fin 10)] [] []
               None 0 iso_state None False None w_iso)) = Inr (Fin (1 / 2))
   \<and> map_sum id resp_score
       (fst (InferenceService_score exact cfg0 [(''period_days'', Fin 3), (''tmag'', Fin 10)] [] []
               None 0 iso_state None False None
               (snd (InferenceService_score exact cfg0
                       [(''period_days'', Fin 3), (''tmag'', Fin 10)] [] [] None 0 iso_state None
                       False None w_iso)))) = Inr (Fin (1 / 2))"
proof -
  have d: "deterministic iso_state"
    by (simp add: deterministic_def ignores_ambient_def iso_state_def iso_model_def std_scaler_def)
  have a: "map_sum id resp_score
       (fst (InferenceService_score exact cfg0 [(''period_days'', Fin 3), (''tmag'', Fin 10)] [] []
               None 0 iso_state None False None w_iso)) = Inr (Fin (1 / 2))"
    by (simp add: iso_score)
  from score_deterministic[OF d, of exact cfg0 "[(''period_days'', Fin 3), (''tmag'', Fin 10)]"
      "[]" "[]" None 0 None False None w_iso, THEN conjunct1] a d
  show ?thesis by simp
qed

text \<open>
  C8 as stated fails for an estimator that is not a function of its argument;
  neither the loader nor \<open>_score\<close> keeps such an object out of the artifact state.
  The one-class model here gives the number of estimator calls made so far as its
  decision value: the first call of the scoring path gives the score \<open>0.5\<close>, the
  second call, with the same inputs and the same state, gives \<open>1\<close>.
\<close>

theorem score_not_deterministic:
  "map_sum id resp_score
     (fst (InferenceService_score exact cfg0 [(''period_days'', Fin 3), (''tmag'', Fin 10)] [] []
             None 0 counting_state None False None w_iso)) = Inr (Fin (1 / 2))
   \<and> map_sum id resp_score
       (fst (InferenceService_score exact cfg0 [(''period_days'', Fin 3), (''tmag'', Fin 10)] [] []
               None 0 counting_state None False None
               (snd (InferenceService_score exact cfg0
                       [(''period_days'', Fin 3), (''tmag'', Fin 10)] [] [] None 0 counting_state
                       None False None w_iso)))) = Inr (Fin 1)"
  by (simp add: InferenceService_score_def model_input_def counting_state_def counting_model_def
      iso_state_def score_one_class_def call_method_def call_library_def index0_def elapsed_ms_def
      monotonic_ms_def log_event_def exact_def w_iso_def w_none_def)

section \<open>The reload policy\<close>

lemma strip_iso: "strip (''model_iso_v2.pkl'' @ [CHR 0x0A]) = ''model_iso_v2.pkl''"
  by (simp add: strip_def lstrip_def rstrip_def strip_left.simps space_prefix_def whitespace_def
      startswith_def)

lemma strip_nbsp:
  "strip ([CHR 0xC2, CHR 0xA0] @ ''model_iso_v2.pkl'' @ [CHR 0x0A]) = ''model_iso_v2.pkl''"
  by (simp add: strip_def lstrip_def rstrip_def strip_left.simps space_prefix_def whitespace_def
      startswith_def)

lemma strip_xgb: "strip ''model_xgb_v1.pkl'' = ''model_xgb_v1.pkl''"
  by (simp add: strip_def lstrip_def rstrip_def strip_left.simps space_prefix_def whitespace_def
      startswith_def)

lemma strip_rf: "strip ''model_rf_v2.pkl'' = ''model_rf_v2.pkl''"
  by (simp add: strip_def lstrip_def rstrip_def strip_left.simps space_prefix_def whitespace_def
      startswith_def)

lemma ptr_iso: "pointer w_iso = Some (''model_iso_v2.pkl'' @ [CHR 0x0A], 100)"
  by (simp add: w_iso_def)

lemma load_iso: "load_state_result w_iso = Inr iso_state"
  by (simp add: load_state_result_def ptr_iso strip_iso del: append.simps)
     (simp add: w_iso_def w_none_def iso_files_def path_exists_def startswith_def
      load_one_class_def resolve_suffix_def path_stem_def path_name_def rfind_dot_def
      removeprefix_def split_first_def joblib_load_def load_if_exists_def finish_state_def
      load_feature_names_def json_load_def iso_state_def Let_def)

lemma refresh_world:
  "InferenceService_refresh svc force w = (res, svc', w') \<Longrightarrow>
   w' = w \<or> w' = log_event LoadArtifacts w"
  by (auto simp: InferenceService_refresh_def reload_def load_state_def
      split: option.splits sum.splits if_splits prod.splits)

lemma refresh_iso: "InferenceService_refresh svc_iso False w_iso = (Inr iso_state, svc_iso, w_iso)"
  by (simp add: InferenceService_refresh_def ptr_iso) (simp add: svc_iso_def iso_state_def)

text \<open>
  C2 (as amended). When the pointer file does not exist, \<open>refresh\<close> raises
  \<open>FileNotFoundError\<close>: it performs no load and leaves the service and the world as
  they are, and the cached state is not returned. When the pointer file exists,
  \<open>refresh\<close> performs a full artifact load (and swaps the state in when the load
  succeeds) exactly when \<open>force\<close> is true, no state has been loaded yet, or the
  modification time of the pointer file is strictly greater than the one recorded
  in the cached state; in every other case it returns the cached state and changes
  nothing.
\<close>

theorem refresh_reload_policy:
  "(pointer w = None \<longrightarrow>
      InferenceService_refresh svc force w = (Inl FileNotFoundError, svc, w))
   \<and> (\<forall>text m. pointer w = Some (text, m) \<longrightarrow>
        (force \<or> svc_state svc = None \<or> (\<exists>st. svc_state svc = Some st \<and> latest_mtime st < m) \<longrightarrow>
            InferenceService_refresh svc force w =
              (case load_state_result w of
                 Inl e \<Rightarrow> (Inl e, svc, log_event LoadArtifacts w)
               | Inr st \<Rightarrow> (Inr st, svc\<lparr>svc_state := Some st\<rparr>, log_event LoadArtifacts w)))
        \<and> (\<not> force \<longrightarrow> (\<forall>st. svc_state svc = Some st \<and> \<not> latest_mtime st < m \<longrightarrow>
            InferenceService_refresh svc force w = (Inr st, svc, w))))"
  by (auto simp: InferenceService_refresh_def reload_def load_state_def split: option.splits sum.splits)

theorem refresh_reload_policy_witness:
  "pointer w_iso = Some (''model_iso_v2.pkl'' @ [CHR 0x0A], 100)
   \<and> InferenceService_refresh svc_iso True w_iso = (Inr iso_state, svc_iso, log_event LoadArtifacts w_iso)
   \<and> InferenceService_refresh svc_iso False w_iso = (Inr iso_state, svc_iso, w_iso)
   \<and> pointer w_none = None
   \<and> InferenceService_refresh svc_iso True w_none = (Inl FileNotFoundError, svc_iso, w_none)"
proof -
  have p: "pointer w_iso = Some (''model_iso_v2.pkl'' @ [CHR 0x0A], 100)"
    by (simp add: w_iso_def)
  have n: "pointer w_none = None" by (simp add: w_none_def)
  have s: "svc_state svc_iso = Some iso_state" "latest_mtime iso_state = 100"
    by (simp_all add: svc_iso_def iso_state_def)
  have u: "svc_iso\<lparr>svc_state := Some iso_state\<rparr> = svc_iso" by (simp add: svc_iso_def)
  from refresh_reload_policy[of w_iso svc_iso True] refresh_reload_policy[of w_iso svc_iso False]
    refresh_reload_policy[of w_none svc_iso True]
  show ?thesis using p n s u by (simp add: load_iso)
qed

text \<open>
  C2 as stated fails when the pointer file is missing: \<open>refresh\<close> raises
  \<open>FileNotFoundError\<close> before anything else. A forced refresh performs no load
  then, and an unforced one does not return the cached state.
\<close>

theorem refresh_missing_pointer_raises:
  "InferenceService_refresh svc_iso False w_none = (Inl FileNotFoundError, svc_iso, w_none)
   \<and> InferenceService_refresh svc_iso True w_none = (Inl FileNotFoundError, svc_iso, w_none)"
  by (simp add: InferenceService_refresh_def w_none_def)

section \<open>The mode of the artifact bundle\<close>

lemmas path_defs = path_exists_def startswith_def resolve_suffix_def path_stem_def path_name_def
  rfind_dot_def removeprefix_def split_first_def path_suffix_def lower_def lower_char_def

lemmas reader_defs = joblib_load_def load_if_exists_def load_feature_names_def json_load_def
  load_supervised_model_def Booster_load_model_def

lemma load_feature_names_exists:
  "load_feature_names w p = Inr names \<Longrightarrow> path_exists w p"
  by (auto simp: load_feature_names_def json_load_def path_exists_def split: option.splits)

text \<open>
  C7. The mode of a loaded state follows from the prefix of the name the pointer
  file holds (its text without the white space around it). Every state the loader
  returns has the one-class (unsupervised) mode under the prefix \<open>model_iso_\<close>, and
  \<open>model_info\<close> then reports no calibrator; it has the supervised mode under the
  prefix \<open>model_xgb_\<close>. With any other prefix the load raises and gives no state:
  \<open>FileNotFoundError\<close> when the name is not empty and the file it names is missing,
  \<open>ValueError\<close> otherwise. The two prefixes exclude each other. When the files the
  name selects are there and readable, the load succeeds: under \<open>model_iso_\<close> with
  the one-class mode, the pickled model, the scaler whose file exists and no
  calibrator; under \<open>model_xgb_\<close>, xgboost being installed, with the supervised mode,
  the booster, and the scaler and the calibrator whose files exist.
\<close>

theorem load_state_mode_from_prefix:
  "(\<forall>s. fst (load_state cfg w) = Inr s \<longrightarrow>
      (\<exists>text m. pointer w = Some (text, m) \<and>
         (startswith (strip text) ''model_iso_'' \<and> mode s = one_class \<and>
            \<not> mi_has_calibrator (model_info_of cfg s)
          \<or> startswith (strip text) ''model_xgb_'' \<and> mode s = supervised)))
   \<and> (\<forall>text m. pointer w = Some (text, m) \<and> \<not> startswith (strip text) ''model_iso_'' \<and>
         \<not> startswith (strip text) ''model_xgb_'' \<longrightarrow>
         fst (load_state cfg w) =
           Inl (if strip text \<noteq> [] \<and> \<not> path_exists w (strip text) then FileNotFoundError
                else ValueError))
   \<and> (\<forall>text m. pointer w = Some (text, m) \<and> startswith (strip text) ''model_iso_'' \<longrightarrow>
         \<not> startswith (strip text) ''model_xgb_'')
   \<and> (\<forall>text m sfx mdl scl names.
         pointer w = Some (text, m) \<and> startswith (strip text) ''model_iso_'' \<and>
         resolve_suffix (strip text) ''model_iso_'' = Inr sfx \<and>
         artifacts w (strip text) = Some (Pickle mdl) \<and>
         load_if_exists w (''scaler_'' @ split_first CHR ''.'' sfx @ ''.pkl'') = Inr scl \<and>
         load_feature_names w (''feature_names_'' @ split_first CHR ''.'' sfx @ ''.json'')
           = Inr names \<and> names \<noteq> [] \<longrightarrow>
         (\<exists>s. fst (load_state cfg w) = Inr s \<and> mode s = one_class \<and> model s = mdl \<and>
              scaler s = scl \<and> calibrator s = None \<and> xgb s = None \<and>
              feature_names s = names \<and> latest s = strip text \<and> latest_mtime s = m \<and>
              \<not> mi_has_calibrator (model_info_of cfg s)))
   \<and> (\<forall>text m sfx xgb_mod mdl scl cal names.
         pointer w = Some (text, m) \<and> startswith (strip text) ''model_xgb_'' \<and>
         resolve_suffix (strip text) ''model_xgb_'' = Inr sfx \<and>
         xgboost w = Some xgb_mod \<and>
         path_exists w (strip text) \<and> load_supervised_model w (strip text) = Inr mdl \<and>
         load_if_exists w (''scaler_'' @ split_first CHR ''.'' sfx @ ''.pkl'') = Inr scl \<and>
         load_if_exists w (''calibrator_'' @ split_first CHR ''.'' sfx @ ''.pkl'') = Inr cal \<and>
         load_feature_names w (''feature_names_'' @ split_first CHR ''.'' sfx @ ''.json'')
           = Inr names \<and> names \<noteq> [] \<longrightarrow>
         (\<exists>s. fst (load_state cfg w) = Inr s \<and> mode s = supervised \<and> model s = mdl \<and>
              scaler s = scl \<and> calibrator s = cal \<and> xgb s = Some xgb_mod \<and>
              feature_names s = names \<and> latest s = strip text \<and> latest_mtime s = m \<and>
              mi_has_calibrator (model_info_of cfg s) = (cal \<noteq> None)))"
proof (intro conjI allI impI)
  fix s assume "fst (load_state cfg w) = Inr s"
  then show "\<exists>text m. pointer w = Some (text, m) \<and>
         (startswith (strip text) ''model_iso_'' \<and> mode s = one_class \<and>
            \<not> mi_has_calibrator (model_info_of cfg s)
          \<or> startswith (strip text) ''model_xgb_'' \<and> mode s = supervised)"
    by (auto simp: load_state_def load_state_result_def load_one_class_def load_supervised_def
        finish_state_def model_info_of_def Let_def
        split: option.splits prod.splits if_splits sum.splits)
next
  fix nm m
  assume "pointer w = Some (nm, m) \<and> \<not> startswith (strip nm) ''model_iso_'' \<and>
         \<not> startswith (strip nm) ''model_xgb_''"
  then show "fst (load_state cfg w) =
           Inl (if strip nm \<noteq> [] \<and> \<not> path_exists w (strip nm) then FileNotFoundError
                else ValueError)"
    by (auto simp: load_state_def load_state_result_def Let_def)
next
  fix nm m
  assume "pointer w = Some (nm, m) \<and> startswith (strip nm) ''model_iso_''"
  then show "\<not> startswith (strip nm) ''model_xgb_''"
    by (auto simp: startswith_def)
next
  fix nm m sfx mdl scl names
  assume a: "pointer w = Some (nm, m) \<and> startswith (strip nm) ''model_iso_'' \<and>
         resolve_suffix (strip nm) ''model_iso_'' = Inr sfx \<and>
         artifacts w (strip nm) = Some (Pickle mdl) \<and>
         load_if_exists w (''scaler_'' @ split_first CHR ''.'' sfx @ ''.pkl'') = Inr scl \<and>
         load_feature_names w (''feature_names_'' @ split_first CHR ''.'' sfx @ ''.json'')
           = Inr names \<and> names \<noteq> []"
  then have ne: "strip nm \<noteq> []" by (auto simp: startswith_def)
  from a have ex: "path_exists w (''feature_names_'' @ split_first CHR ''.'' sfx @ ''.json'')"
    using load_feature_names_exists by blast
  from a ne ex show "\<exists>s. fst (load_state cfg w) = Inr s \<and> mode s = one_class \<and> model s = mdl \<and>
              scaler s = scl \<and> calibrator s = None \<and> xgb s = None \<and>
              feature_names s = names \<and> latest s = strip nm \<and> latest_mtime s = m \<and>
              \<not> mi_has_calibrator (model_info_of cfg s)"
    by (simp add: load_state_def load_state_result_def load_one_class_def finish_state_def
        model_info_of_def Let_def path_exists_def joblib_load_def del: append.simps)
next
  fix nm m sfx xgb_mod mdl scl cal names
  assume a: "pointer w = Some (nm, m) \<and> startswith (strip nm) ''model_xgb_'' \<and>
         resolve_suffix (strip nm) ''model_xgb_'' = Inr sfx \<and>
         xgboost w = Some xgb_mod \<and>
         path_exists w (strip nm) \<and> load_supervised_model w (strip nm) = Inr mdl \<and>
         load_if_exists w (''scaler_'' @ split_first CHR ''.'' sfx @ ''.pkl'') = Inr scl \<and>
         load_if_exists w (''calibrator_'' @ split_first CHR ''.'' sfx @ ''.pkl'') = Inr cal \<and>
         load_feature_names w (''feature_names_'' @ split_first CHR ''.'' sfx @ ''.json'')
           = Inr names \<and> names \<noteq> []"
  then have ne: "strip nm \<noteq> []" and ni: "\<not> startswith (strip nm) ''model_iso_''"
    by (auto simp: startswith_def)
  from a have ex: "path_exists w (''feature_names_'' @ split_first CHR ''.'' sfx @ ''.json'')"
    using load_feature_names_exists by blast
  from a ne ni ex show "\<exists>s. fst (load_state cfg w) = Inr s \<and> mode s = supervised \<and> model s = mdl \<and>
              scaler s = scl \<and> calibrator s = cal \<and> xgb s = Some xgb_mod \<and>
              feature_names s = names \<and> latest s = strip nm \<and> latest_mtime s = m \<and>
              mi_has_calibrator (model_info_of cfg s) = (cal \<noteq> None)"
    by (simp add: load_state_def load_state_result_def load_supervised_def finish_state_def
        model_info_of_def Let_def del: append.simps)
qed

theorem load_state_mode_from_prefix_witness:
  "strip ([CHR 0xC2, CHR 0xA0] @ ''model_iso_v2.pkl'' @ [CHR 0x0A]) = ''model_iso_v2.pkl''
   \<and> (\<exists>s. fst (load_state cfg0 w_nbsp) = Inr s \<and> mode s = one_class \<and> model s = iso_model \<and>
          scaler s = Some std_scaler \<and> calibrator s = None \<and>
          \<not> mi_has_calibrator (model_info_of cfg0 s))
   \<and> (\<exists>s. fst (load_state cfg0 w_xgb) = Inr s \<and> mode s = supervised \<and> model s = booster0 \<and>
          scaler s = None \<and> calibrator s = Some calibrator0 \<and> xgb s = Some xgb0 \<and>
          mi_has_calibrator (model_info_of cfg0 s))
   \<and> path_exists w_rf ''model_rf_v2.pkl''
   \<and> fst (load_state cfg0 w_rf) = Inl ValueError
   \<and> fst (load_state cfg0 w_iso) = Inr iso_state
   \<and> mode iso_state = one_class"
proof -
  let ?t = "[CHR 0xC2, CHR 0xA0] @ ''model_iso_v2.pkl'' @ [CHR 0x0A]"
  have p1: "pointer w_nbsp = Some (?t, 100)" by (simp add: w_nbsp_def)
  have i1: "startswith ''model_iso_v2.pkl'' ''model_iso_''" by (simp add: startswith_def)
  have i2: "resolve_suffix ''model_iso_v2.pkl'' ''model_iso_'' = Inr ''v2''"
    by (simp add: path_defs)
  have i3: "artifacts w_nbsp ''model_iso_v2.pkl'' = Some (Pickle iso_model)"
    by (simp add: w_nbsp_def w_none_def iso_files_def)
  have i4: "load_if_exists w_nbsp (''scaler_'' @ split_first CHR ''.'' ''v2'' @ ''.pkl'')
            = Inr (Some std_scaler)"
    by (simp add: w_nbsp_def w_none_def iso_files_def path_defs reader_defs)
  have i5: "load_feature_names w_nbsp (''feature_names_'' @ split_first CHR ''.'' ''v2'' @ ''.json'')
            = Inr [''period_days'', ''tmag'']"
    by (simp add: w_nbsp_def w_none_def iso_files_def path_defs reader_defs)
  from load_state_mode_from_prefix[of cfg0 w_nbsp, THEN conjunct2, THEN conjunct2,
      THEN conjunct2, THEN conjunct1, rule_format, of ?t 100 "''v2''" iso_model
      "Some std_scaler" "[''period_days'', ''tmag'']"]
  have a: "\<exists>s. fst (load_state cfg0 w_nbsp) = Inr s \<and> mode s = one_class \<and> model s = iso_model \<and>
          scaler s = Some std_scaler \<and> calibrator s = None \<and>
          \<not> mi_has_calibrator (model_info_of cfg0 s)"
    using p1 i1 i2 i3 i4 i5 by (simp only: strip_nbsp) blast
  have p2: "pointer w_xgb = Some (''model_xgb_v1.pkl'', 100)" by (simp add: w_xgb_def)
  have x1: "startswith ''model_xgb_v1.pkl'' ''model_xgb_''" by (simp add: startswith_def)
  have x2: "resolve_suffix ''model_xgb_v1.pkl'' ''model_xgb_'' = Inr ''v1''"
    by (simp add: path_defs)
  have x3: "xgboost w_xgb = Some xgb0" "path_exists w_xgb ''model_xgb_v1.pkl''"
    by (simp_all add: w_xgb_def xgb_files_def path_exists_def)
  have x4: "load_supervised_model w_xgb ''model_xgb_v1.pkl'' = Inr booster0"
    by (simp add: w_xgb_def xgb_files_def path_defs reader_defs booster0_def)
  have x5: "load_if_exists w_xgb (''scaler_'' @ split_first CHR ''.'' ''v1'' @ ''.pkl'') = Inr None"
    by (simp add: w_xgb_def xgb_files_def path_defs reader_defs)
  have x6: "load_if_exists w_xgb (''calibrator_'' @ split_first CHR ''.'' ''v1'' @ ''.pkl'')
            = Inr (Some calibrator0)"
    by (simp add: w_xgb_def xgb_files_def path_defs reader_defs)
  have x7: "load_feature_names w_xgb (''feature_names_'' @ split_first CHR ''.'' ''v1'' @ ''.json'')
            = Inr [''a'']"
    by (simp add: w_xgb_def xgb_files_def path_defs reader_defs)
  from load_state_mode_from_prefix[of cfg0 w_xgb, THEN conjunct2, THEN conjunct2,
      THEN conjunct2, THEN conjunct2, rule_format, of "''model_xgb_v1.pkl''" 100 "''v1''" xgb0
      booster0 None "Some calibrator0" "[''a'']"]
  have b: "\<exists>s. fst (load_state cfg0 w_xgb) = Inr s \<and> mode s = supervised \<and> model s = booster0 \<and>
          scaler s = None \<and> calibrator s = Some calibrator0 \<and> xgb s = Some xgb0 \<and>
          mi_has_calibrator (model_info_of cfg0 s)"
    using p2 x1 x2 x3 x4 x5 x6 x7 by (simp only: strip_xgb) auto
  have p3: "pointer w_rf = Some (''model_rf_v2.pkl'', 100)" by (simp add: w_rf_def)
  have r1: "\<not> startswith ''model_rf_v2.pkl'' ''model_iso_''"
           "\<not> startswith ''model_rf_v2.pkl'' ''model_xgb_''"
    by (simp_all add: startswith_def)
  have r2: "path_exists w_rf ''model_rf_v2.pkl''" by (simp add: w_rf_def path_exists_def)
  from load_state_mode_from_prefix[of cfg0 w_rf, THEN conjunct2, THEN conjunct1, rule_format,
      of "''model_rf_v2.pkl''" 100]
  have c: "fst (load_state cfg0 w_rf) = Inl ValueError"
    using p3 r1 r2 by (simp add: strip_rf)
  have l: "fst (load_state cfg0 w_iso) = Inr iso_state"
    by (simp add: load_state_def load_iso)
  from load_state_mode_from_prefix[of cfg0 w_iso, THEN conjunct1, rule_format, of iso_state] l
    ptr_iso
  have d: "mode iso_state = one_class"
    by (auto simp: iso_state_def)
  show ?thesis using a b c d l r2 strip_nbsp by blast
qed

section \<open>The supervised score\<close>

lemma sup_score: "fst (InferenceService_score exact cfg0 [(''a'', Fin x)] [] [] None 0 sup_state None False None w_none)
   = Inr \<lparr>resp_tic_id = None, resp_mode = supervised, resp_is_probability = True,
          resp_score = clip01 (Fin x), resp_summary = [], resp_features = [(''a'', Some (Fin x))],
          resp_warnings = [],
          resp_meta = \<lparr>meta_artifact_dir = ''/data/model'', meta_feature_names_version = ''v1'',
            meta_runtime_ms = 0, meta_cache_hit = None, meta_auto_fetch = False\<rparr>,
          resp_lightcurve = None\<rparr>"
  by (simp add: InferenceService_score_def model_input_def sup_state_def booster0_def calibrator0_def
      xgb0_def score_supervised_def call_method_def call_library_def index0_def index_at_def
      elapsed_ms_def monotonic_ms_def log_event_def w_none_def reindex_def series_get_def
      fsub_def exact_def
      InferenceService_serialize_series_def InferenceService_serialize_summary_def pd_isna_def cfg0_def)

text \<open>
  C5 (as amended). In supervised mode a response of \<open>_score\<close> comes after the raw
  prediction of the boosted-tree model has been obtained; when the state has a
  calibrator, the score is the clip to \<open>[0, 1]\<close> of the positive-class probability
  the calibrator gives for the model input matrix (the calibrator is not given the
  raw prediction); without a calibrator the score is the clip of the raw
  prediction. The probability flag is set.
\<close>

theorem supervised_score_calibrated:
  assumes "mode state = supervised"
      and "fst (InferenceService_score rnd cfg features summary warnings tic start_ms state
                  cache_hit auto_fetch lightcurve w) = Inr r"
  shows "\<exists>xgb_module X_model dm raw_output raw w1 w2 w3.
           model_input state features (log_event ScoreCall w) = (Inr X_model, w1) \<and>
           xgb state = Some xgb_module \<and>
           call_library (\<lambda>a. DMatrix xgb_module a X_model (feature_names state)) w1
             = (Inr dm, w2) \<and>
           call_method (predict (model state)) dm w2 = (Inr raw_output, w3) \<and>
           index0 raw_output = Inr raw \<and>
           resp_is_probability r \<and>
           (case calibrator state of
              None \<Rightarrow> resp_score r = clip01 raw
            | Some cal \<Rightarrow>
                (\<exists>proba row p w4.
                   call_method (predict_proba cal) X_model w3 = (Inr proba, w4) \<and>
                   index0 proba = Inr row \<and> index_at row 1 = Inr p \<and>
                   resp_score r = clip01 p))"
  using assms
  by (auto simp: InferenceService_score_def score_supervised_def elapsed_ms_def monotonic_ms_def
      split: sum.splits prod.splits option.splits)

theorem supervised_score_calibrated_witness:
  "mode sup_state = supervised
   \<and> (\<exists>r. fst (InferenceService_score exact cfg0 [(''a'', Fin 3)] [] [] None 0 sup_state None False
                None w_none) = Inr r \<and> resp_score r = Fin 1 \<and> resp_is_probability r)"
proof -
  have m: "mode sup_state = supervised" by (simp add: sup_state_def)
  obtain r where r: "fst (InferenceService_score exact cfg0 [(''a'', Fin 3)] [] [] None 0 sup_state None
                False None w_none) = Inr r"
    by (simp add: sup_score)
  from supervised_score_calibrated[OF m r] obtain X_model proba row p w1 w3 w4 where
    "model_input sup_state [(''a'', Fin 3)] (log_event ScoreCall w_none) = (Inr X_model, w1)"
    "call_method (predict_proba calibrator0) X_model w3 = (Inr proba, w4)"
    "index0 proba = Inr row" "index_at row 1 = Inr p" "resp_score r = clip01 p"
    and "resp_is_probability r"
    by (auto simp: sup_state_def)
  then have "resp_score r = Fin 1 \<and> resp_is_probability r"
    by (auto simp: model_input_def sup_state_def calibrator0_def call_method_def call_library_def
        index0_def index_at_def reindex_def series_get_def fsub_def exact_def)
  with m r show ?thesis by blast
qed

text \<open>
  C5 as stated has the calibrator map the raw classifier score to the probability.
  Here the booster gives the raw score \<open>0.9\<close> for both feature vectors, and the
  two scores differ: the score is not computed from the raw score.
\<close>

theorem calibrated_score_not_from_raw:
  "fst (call_method (predict (model sup_state)) ([[Fin (1 / 5)]], [''a'']) w_none)
     = Inr [Fin (9 / 10)]
   \<and> fst (call_method (predict (model sup_state)) ([[Fin (7 / 10)]], [''a'']) w_none)
     = Inr [Fin (9 / 10)]
   \<and> map_sum id resp_score
        (fst (InferenceService_score exact cfg0 [(''a'', Fin (1 / 5))] [] [] None 0 sup_state None
                False None w_none)) = Inr (Fin (1 / 5))
   \<and> map_sum id resp_score
        (fst (InferenceService_score exact cfg0 [(''a'', Fin (7 / 10))] [] [] None 0 sup_state None
                False None w_none)) = Inr (Fin (7 / 10))"
  by (simp add: sup_score) (simp add: sup_state_def booster0_def call_method_def call_library_def)

section \<open>A missing light curve\<close>

text \<open>
  C9 (as amended). Once the refresh that opens \<open>predict_by_tic\<close> has succeeded:
  for a TIC identifier whose light-curve file does not exist, with auto-fetch
  disabled, \<open>predict_by_tic\<close> raises \<open>LightcurveNotFoundError\<close> (caused by the
  \<open>FileNotFoundError\<close> of the store) after reading the clock and looking the file
  up, without a call of \<open>_score\<close>; the handler answers 404, and it answers 404 for
  this class of exception only.
\<close>

theorem missing_lightcurve_is_404:
  assumes "InferenceService_refresh svc False w = (Inr state, svc', w1)"
      and "lightcurves w tic = None"
      and "\<not> auto_fetch_missing (svc_settings svc)"
      and "1 \<le> tic"
  shows "InferenceService_predict_by_tic rnd lib svc tic w =
           (Inl (LightcurveNotFoundError (PyError FileNotFoundError)), svc',
            log_event (ReadLightcurve tic) (w1\<lparr>ticks := Suc (ticks w1)\<rparr>))
         \<and> main_predict_by_tic rnd lib svc tic w =
           (HTTPException 404, svc',
            log_event (ReadLightcurve tic) (w1\<lparr>ticks := Suc (ticks w1)\<rparr>))
         \<and> (\<forall>res. http_of res = HTTPException 404 \<longleftrightarrow> (\<exists>c. res = Inl (LightcurveNotFoundError c)))"
proof -
  from refresh_world[OF assms(1)] assms(2) have lc: "lightcurves w1 tic = None"
    by (auto simp: log_event_def)
  have p: "InferenceService_predict_by_tic rnd lib svc tic w =
           (Inl (LightcurveNotFoundError (PyError FileNotFoundError)), svc',
            log_event (ReadLightcurve tic) (w1\<lparr>ticks := Suc (ticks w1)\<rparr>))"
    using assms(1,3) lc
    by (simp add: InferenceService_predict_by_tic_def monotonic_ms_def acquire_lightcurve_def
        get_lightcurve_by_tic_def log_event_def Let_def)
  have h: "\<forall>res. http_of res = HTTPException 404 \<longleftrightarrow> (\<exists>c. res = Inl (LightcurveNotFoundError c))"
    by (auto simp: http_of_def PredictionResponse_def split: sum.splits error.splits if_splits)
  show ?thesis using p h assms(4) by (simp add: main_predict_by_tic_def http_of_def)
qed

theorem missing_lightcurve_is_404_witness:
  "InferenceService_refresh svc_iso False w_iso = (Inr iso_state, svc_iso, w_iso)
   \<and> lightcurves w_iso 7 = None
   \<and> \<not> auto_fetch_missing (svc_settings svc_iso)
   \<and> main_predict_by_tic exact lib0 svc_iso 7 w_iso =
       (HTTPException 404, svc_iso, log_event (ReadLightcurve 7) (w_iso\<lparr>ticks := Suc (ticks w_iso)\<rparr>))
   \<and> trace (log_event (ReadLightcurve 7) (w_iso\<lparr>ticks := Suc (ticks w_iso)\<rparr>)) = [ReadLightcurve 7]"
proof -
  have a: "lightcurves w_iso 7 = None" by (simp add: w_iso_def w_none_def)
  have b: "\<not> auto_fetch_missing (svc_settings svc_iso)" by (simp add: svc_iso_def cfg0_def)
  have c: "(1::int) \<le> 7" by simp
  have t: "trace (log_event (ReadLightcurve 7) (w_iso\<lparr>ticks := Suc (ticks w_iso)\<rparr>)) = [ReadLightcurve 7]"
    by (simp add: log_event_def w_iso_def w_none_def)
  from missing_lightcurve_is_404[OF refresh_iso a b c, of exact lib0] refresh_iso a b t
  show ?thesis by simp
qed

text \<open>
  C9 as stated fails when the refresh fails: with the pointer file missing the call
  raises the \<open>FileNotFoundError\<close> of \<open>refresh\<close>, which the handler does not catch.
\<close>

theorem missing_lightcurve_refresh_failure:
  "lightcurves w_none 7 = None \<and> \<not> auto_fetch_missing (svc_settings svc_iso)
   \<and> InferenceService_predict_by_tic exact lib0 svc_iso 7 w_none = (Inl (PyError FileNotFoundError), svc_iso, w_none)
   \<and> main_predict_by_tic exact lib0 svc_iso 7 w_none = (Unhandled (PyError FileNotFoundError), svc_iso, w_none)"
  by (simp add: InferenceService_predict_by_tic_def main_predict_by_tic_def http_of_def
      InferenceService_refresh_def w_none_def svc_iso_def cfg0_def)

section \<open>Outlier clipping\<close>

text \<open>On finite values no NaN arises, whatever is rounded to an infinity: the median,
  the deviations and the MAD are not NaN, nor is the threshold when the MAD is not
  zero, so that \<open>not (d <= threshold)\<close> is \<open>d > threshold\<close>.\<close>

lemma set_np_sort: "set (np_sort xs) = set xs" by (simp add: np_sort_def)

lemma length_np_sort: "length (np_sort xs) = length xs" by (simp add: np_sort_def)

lemma np_sort_nth:
  "list_all P xs \<Longrightarrow> i < length xs \<Longrightarrow> P (np_sort xs ! i)"
  by (metis length_np_sort set_np_sort list_all_iff nth_mem)

lemma isfinite_conv: "isfinite x \<longleftrightarrow> (\<exists>a. x = Fin a)" by (cases x) auto

lemma rounding_not_nan: "rounding rnd \<Longrightarrow> \<not> isnan (rnd x)"
  by (simp add: rounding_def)

lemma fadd_not_nan:
  "rounding rnd \<Longrightarrow> \<not> isnan a \<Longrightarrow> a \<noteq> NInf \<Longrightarrow> \<not> isnan b \<Longrightarrow> b \<noteq> NInf \<Longrightarrow>
   \<not> isnan (fadd rnd a b)"
  by (cases a; cases b) (simp_all add: rounding_not_nan)

lemma fdiv_two_not_nan: "rounding rnd \<Longrightarrow> \<not> isnan a \<Longrightarrow> \<not> isnan (fdiv rnd a (Fin 2))"
  by (cases a) (simp_all add: rounding_not_nan signed_inf_def)

lemma median_not_nan:
  assumes r: "rounding rnd"
      and a: "list_all (\<lambda>x. \<not> isnan x \<and> x \<noteq> NInf) xs" and ne: "xs \<noteq> []"
  shows "\<not> isnan (np_median rnd xs)"
proof -
  have nn: "\<not> list_ex isnan xs" using a by (auto simp: list_ex_iff list_all_iff)
  have n: "0 < length xs" using ne by simp
  show ?thesis
  proof (cases "odd (length xs)")
    case True
    have "length xs div 2 < length xs" using n by simp
    from np_sort_nth[OF a this] True ne nn show ?thesis by (simp add: np_median_def Let_def)
  next
    case False
    have "length xs div 2 - 1 < length xs" using n by arith
    from np_sort_nth[OF a this]
    have u: "\<not> isnan (np_sort xs ! (length xs div 2 - 1))" "np_sort xs ! (length xs div 2 - 1) \<noteq> NInf"
      by simp_all
    have "length xs div 2 < length xs" using n by simp
    from np_sort_nth[OF a this]
    have v: "\<not> isnan (np_sort xs ! (length xs div 2))" "np_sort xs ! (length xs div 2) \<noteq> NInf"
      by simp_all
    from fdiv_two_not_nan[OF r fadd_not_nan[OF r u v]] False ne nn
    show ?thesis by (simp add: np_median_def Let_def)
  qed
qed

lemma deviation_not_nan:
  "rounding rnd \<Longrightarrow> isfinite f \<Longrightarrow> \<not> isnan m \<Longrightarrow>
   \<not> isnan (fabs (fsub rnd f m)) \<and> fabs (fsub rnd f m) \<noteq> NInf"
proof -
  assume r: "rounding rnd" and "isfinite f" and m: "\<not> isnan m"
  then obtain a where f: "f = Fin a" by (auto simp: isfinite_conv)
  have "\<not> isnan (fsub rnd f m)"
    using m rounding_not_nan[OF r] by (cases m) (simp_all add: fsub_def f)
  then show ?thesis by (cases "fsub rnd f m") simp_all
qed

lemma finite_not_nan: "list_all isfinite xs \<Longrightarrow> list_all (\<lambda>x. \<not> isnan x \<and> x \<noteq> NInf) xs"
  by (auto simp: list_all_iff isfinite_conv)

lemma mad_not_nan:
  assumes "rounding rnd" "list_all isfinite xs" "xs \<noteq> []"
  shows "\<not> isnan (mad rnd xs)"
  unfolding mad_def
proof (rule median_not_nan[OF assms(1)])
  have m: "\<not> isnan (np_median rnd xs)"
    by (rule median_not_nan[OF assms(1) finite_not_nan[OF assms(2)] assms(3)])
  show "list_all (\<lambda>x. \<not> isnan x \<and> x \<noteq> NInf) (map (\<lambda>v. fabs (fsub rnd v (np_median rnd xs))) xs)"
    using assms(2) deviation_not_nan[OF assms(1) _ m] by (simp add: list_all_iff)
  show "map (\<lambda>v. fabs (fsub rnd v (np_median rnd xs))) xs \<noteq> []" using assms(3) by simp
qed

text \<open>The factor \<open>5.0 * 1.4826\<close> is at least one, whatever the rounding.\<close>

lemma fle_one_cases: "fle (Fin 1) c \<Longrightarrow> (\<exists>a. c = Fin a \<and> 1 \<le> a) \<or> c = PInf"
  by (cases c) simp_all

lemma factor_ge_one:
  assumes "rounding rnd"
  shows "fle (Fin 1) (fmul rnd (Fin 5) (rnd 1.4826))"
proof -
  from assms have m: "\<And>x y. x \<le> y \<Longrightarrow> fle (rnd x) (rnd y)" and o: "rnd 1 = Fin 1"
    by (simp_all add: rounding_def)
  from m[of 1 "1.4826"] o have "fle (Fin 1) (rnd 1.4826)" by simp
  from fle_one_cases[OF this] show ?thesis
  proof
    assume "\<exists>a. rnd 1.4826 = Fin a \<and> 1 \<le> a"
    then obtain a where a: "rnd 1.4826 = Fin a" "1 \<le> a" by blast
    then have "(1::real) \<le> 5 * a" by simp
    from m[OF this] o a show ?thesis by simp
  next
    assume "rnd 1.4826 = PInf"
    then show ?thesis by (simp add: signed_inf_def)
  qed
qed

lemma threshold_not_nan:
  assumes r: "rounding rnd" and f: "list_all isfinite xs" "xs \<noteq> []"
      and z: "\<not> feq (mad rnd xs) (Fin 0)"
  shows "\<not> isnan (clip_threshold rnd xs)"
proof -
  have m: "\<not> isnan (mad rnd xs)" by (rule mad_not_nan[OF r f])
  from fle_one_cases[OF factor_ge_one[OF r]] show ?thesis
  proof
    assume "\<exists>a. fmul rnd (Fin 5) (rnd 1.4826) = Fin a \<and> 1 \<le> a"
    then obtain a where a: "fmul rnd (Fin 5) (rnd 1.4826) = Fin a" "1 \<le> a" by blast
    then show ?thesis using m rounding_not_nan[OF r]
      by (cases "mad rnd xs") (simp_all add: clip_threshold_def signed_inf_def)
  next
    assume "fmul rnd (Fin 5) (rnd 1.4826) = PInf"
    then show ?thesis using m z
      by (cases "mad rnd xs") (simp_all add: clip_threshold_def signed_inf_def)
  qed
qed

lemma fle_not_fgt: "\<not> isnan a \<Longrightarrow> \<not> isnan b \<Longrightarrow> fle a b \<longleftrightarrow> \<not> fgt a b"
  by (cases a; cases b) (auto simp: fgt_def)

lemma clip_mask_rejected:
  assumes r: "rounding rnd" and f: "list_all isfinite flux" "flux \<noteq> []"
      and z: "\<not> feq (mad rnd flux) (Fin 0)"
  shows "clip_mask rnd flux = map (\<lambda>f. \<not> spec_rejected rnd flux f) flux"
proof -
  have m: "\<not> isnan (np_median rnd flux)"
    by (rule median_not_nan[OF r finite_not_nan[OF f(1)] f(2)])
  have t: "\<not> isnan (clip_threshold rnd flux)" by (rule threshold_not_nan[OF r f z])
  have "\<And>x. x \<in> set flux \<Longrightarrow>
      fle (fabs (fsub rnd x (np_median rnd flux))) (clip_threshold rnd flux)
        = (\<not> spec_rejected rnd flux x)"
    unfolding spec_rejected_def clip_threshold_def[symmetric]
    using f(1) deviation_not_nan[OF r _ m] t
    by (simp add: list_all_iff fle_not_fgt)
  then show ?thesis by (simp add: clip_mask_def)
qed

lemma select_by_map:
  "map fst (filter snd (zip xs (map P ys))) = map fst (filter (\<lambda>(x, y). P y) (zip xs ys))"
proof -
  have "zip xs (map P ys) = map (\<lambda>(x, y). (x, P y)) (zip xs ys)"
    by (simp add: zip_map2)
  then show ?thesis by (simp add: filter_map o_def split_def)
qed

lemma five_sigma_clip_finite:
  assumes "rounding rnd" and "list_all isfinite flux" and "flux \<noteq> []"
      and "length time = length flux"
      and "case flux_err of None \<Rightarrow> True | Some err \<Rightarrow> length err = length flux"
  shows "(feq (mad rnd flux) (Fin 0) \<longrightarrow>
            five_sigma_clip rnd time flux flux_err = Inr (time, flux, flux_err, Fin 1))
       \<and> (\<not> feq (mad rnd flux) (Fin 0) \<longrightarrow>
            five_sigma_clip rnd time flux flux_err =
              Inr (map fst (filter (\<lambda>(t, f). \<not> spec_rejected rnd flux f) (zip time flux)),
                   filter (\<lambda>f. \<not> spec_rejected rnd flux f) flux,
                   map_option (\<lambda>err. map fst (filter (\<lambda>(e, f). \<not> spec_rejected rnd flux f) (zip err flux)))
                     flux_err,
                   rnd (real (length (filter (\<lambda>f. \<not> spec_rejected rnd flux f) flux))
                        / real (length flux))))"
proof (intro conjI impI)
  assume "feq (mad rnd flux) (Fin 0)"
  then show "five_sigma_clip rnd time flux flux_err = Inr (time, flux, flux_err, Fin 1)"
    by (simp add: five_sigma_clip_def)
next
  assume z: "\<not> feq (mad rnd flux) (Fin 0)"
  have m: "clip_mask rnd flux = map (\<lambda>f. \<not> spec_rejected rnd flux f) flux"
    by (rule clip_mask_rejected[OF assms(1,2,3) z])
  have l: "length (clip_mask rnd flux) = length flux" by (simp add: clip_mask_def)
  have f: "map fst (filter snd (zip flux (map P flux))) = filter P flux" for P
    by (induction flux) auto
  have f2: "map fst (filter (\<lambda>(x, y). P y) (zip flux flux)) = filter P flux" for P
    by (induction flux) auto
  have c: "length (filter id (map P flux)) = length (filter P flux)" for P
    by (induction flux) auto
  show "five_sigma_clip rnd time flux flux_err =
              Inr (map fst (filter (\<lambda>(t, f). \<not> spec_rejected rnd flux f) (zip time flux)),
                   filter (\<lambda>f. \<not> spec_rejected rnd flux f) flux,
                   map_option (\<lambda>err. map fst (filter (\<lambda>(e, f). \<not> spec_rejected rnd flux f) (zip err flux)))
                     flux_err,
                   rnd (real (length (filter (\<lambda>f. \<not> spec_rejected rnd flux f) flux))
                        / real (length flux)))"
    using assms(3,4,5) l z
    by (cases flux_err)
       (simp_all add: five_sigma_clip_def Let_def mask_select_def m f f2 c select_by_map)
qed

text \<open>
  C4. In the clipping step of the conditioner (finite flux values, at least one
  sample, arrays of one length), whatever the rounding of the machine: when the MAD
  of the flux is zero the arrays come back unchanged with the kept fraction 1.0;
  otherwise the samples rejected are exactly those with
  \<open>|flux - median| > 5 * 1.4826 * MAD\<close>, the difference, the products, the median
  and the MAD being the rounded ones, and the kept fraction is the number of kept
  samples divided by the number of samples.
\<close>

theorem five_sigma_clip_rejects:
  assumes "rounding rnd" and "list_all isfinite flux" and "flux \<noteq> []"
      and "length time = length flux"
      and "case flux_err of None \<Rightarrow> True | Some err \<Rightarrow> length err = length flux"
  shows "(feq (mad rnd flux) (Fin 0) \<longrightarrow>
            five_sigma_clip rnd time flux flux_err = Inr (time, flux, flux_err, Fin 1))
       \<and> (\<not> feq (mad rnd flux) (Fin 0) \<longrightarrow>
            five_sigma_clip rnd time flux flux_err =
              Inr (map fst (filter (\<lambda>(t, f). \<not> spec_rejected rnd flux f) (zip time flux)),
                   filter (\<lambda>f. \<not> spec_rejected rnd flux f) flux,
                   map_option (\<lambda>err. map fst (filter (\<lambda>(e, f). \<not> spec_rejected rnd flux f) (zip err flux)))
                     flux_err,
                   rnd (real (length (filter (\<lambda>f. \<not> spec_rejected rnd flux f) flux))
                        / real (length flux))))"
  by (rule five_sigma_clip_finite[OF assms])

lemma rounding_exact: "rounding exact"
  by (simp add: rounding_def exact_def)

lemma med5: "np_median exact [Fin 1, Fin 2, Fin 3, Fin 4, Fin 100] = Fin 3"
  by (simp add: np_median_def np_sort_def Let_def)

lemma mad5: "mad exact [Fin 1, Fin 2, Fin 3, Fin 4, Fin 100] = Fin 1"
  by (simp add: mad_def med5 fsub_def exact_def) (simp add: np_median_def np_sort_def Let_def)

lemma med3: "np_median exact [Fin 7, Fin 7, Fin 9] = Fin 7"
  by (simp add: np_median_def np_sort_def Let_def)

lemma mad3: "mad exact [Fin 7, Fin 7, Fin 9] = Fin 0"
  by (simp add: mad_def med3 fsub_def exact_def) (simp add: np_median_def np_sort_def Let_def)

text \<open>The clipping of \<open>flux7\<close> on the machine with ten binary places: the median is
  0, the MAD 13, the threshold \<open>98670 / 1024\<close>, and the last sample is rejected.\<close>

lemma rounding_round_down10: "rounding round_down10"
  by (auto simp: rounding_def round_down10_def divide_right_mono floor_mono)

lemma med7: "np_median round_down10 flux7 = Fin 0"
  by (simp add: np_median_def np_sort_def Let_def flux7_def)

lemma dev7: "map (\<lambda>v. fabs (fsub round_down10 v (Fin 0))) flux7
   = [Fin 26, Fin 13, Fin 13, Fin 0, Fin 13, Fin 13, Fin (98681 / 1024)]"
  by (simp add: flux7_def fsub_def round_down10_def)

lemma mad7: "mad round_down10 flux7 = Fin 13"
  by (simp add: mad_def med7 dev7) (simp add: np_median_def np_sort_def Let_def)

lemma thr7: "clip_threshold round_down10 flux7 = Fin (98670 / 1024)"
  by (simp add: clip_threshold_def mad7 round_down10_def)

lemma rej7: "spec_rejected round_down10 flux7 (Fin a)
   = (98670 / 1024 < \<bar>real_of_int \<lfloor>a * 1024\<rfloor> / 1024\<bar>)"
  unfolding spec_rejected_def clip_threshold_def[symmetric] thr7 med7
  by (simp add: fsub_def round_down10_def fgt_def)

lemma clip7_exact:
  "five_sigma_clip exact [Fin 0, Fin 1, Fin 2, Fin 3, Fin 4, Fin 5, Fin 6] flux7 None
   = Inr ([Fin 0, Fin 1, Fin 2, Fin 3, Fin 4, Fin 5, Fin 6], flux7, None, Fin 1)"
  by (simp add: five_sigma_clip_def clip_mask_def clip_threshold_def mad_def np_median_def
      np_sort_def Let_def flux7_def fsub_def exact_def mask_select_def)

theorem five_sigma_clip_rejects_witness:
  "rounding exact
   \<and> five_sigma_clip exact [Fin 0, Fin 1, Fin 2, Fin 3, Fin 4] [Fin 1, Fin 2, Fin 3, Fin 4, Fin 100] None
    = Inr ([Fin 0, Fin 1, Fin 2, Fin 3], [Fin 1, Fin 2, Fin 3, Fin 4], None, Fin (4 / 5))
   \<and> five_sigma_clip exact [Fin 0, Fin 1, Fin 2] [Fin 7, Fin 7, Fin 9] None
    = Inr ([Fin 0, Fin 1, Fin 2], [Fin 7, Fin 7, Fin 9], None, Fin 1)
   \<and> rounding round_down10
   \<and> five_sigma_clip round_down10 [Fin 0, Fin 1, Fin 2, Fin 3, Fin 4, Fin 5, Fin 6] flux7 None
    = Inr ([Fin 0, Fin 1, Fin 2, Fin 3, Fin 4, Fin 5],
           [Fin (- 26), Fin (- 13), Fin (- 13), Fin 0, Fin 13, Fin 13], None, Fin (877 / 1024))
   \<and> five_sigma_clip exact [Fin 0, Fin 1, Fin 2, Fin 3, Fin 4, Fin 5, Fin 6] flux7 None
    = Inr ([Fin 0, Fin 1, Fin 2, Fin 3, Fin 4, Fin 5, Fin 6], flux7, None, Fin 1)"
proof -
  have a: "five_sigma_clip exact [Fin 0, Fin 1, Fin 2, Fin 3, Fin 4]
             [Fin 1, Fin 2, Fin 3, Fin 4, Fin 100] None
           = Inr ([Fin 0, Fin 1, Fin 2, Fin 3], [Fin 1, Fin 2, Fin 3, Fin 4], None, Fin (4 / 5))"
    using five_sigma_clip_rejects[OF rounding_exact, of "[Fin 1, Fin 2, Fin 3, Fin 4, Fin 100]"
            "[Fin 0, Fin 1, Fin 2, Fin 3, Fin 4]" None]
    by (simp add: mad5 med5 spec_rejected_def fsub_def fgt_def exact_def)
  have b: "five_sigma_clip exact [Fin 0, Fin 1, Fin 2] [Fin 7, Fin 7, Fin 9] None
           = Inr ([Fin 0, Fin 1, Fin 2], [Fin 7, Fin 7, Fin 9], None, Fin 1)"
    using five_sigma_clip_rejects[OF rounding_exact, of "[Fin 7, Fin 7, Fin 9]" "[Fin 0, Fin 1, Fin 2]" None]
    by (simp add: mad3)
  define P where "P = (\<lambda>f. \<not> spec_rejected round_down10 flux7 f)"
  have p: "P (Fin a) = (\<not> 98670 / 1024 < \<bar>real_of_int \<lfloor>a * 1024\<rfloor> / 1024\<bar>)" for a
    by (simp add: P_def rej7)
  have e: "filter P flux7 = [Fin (- 26), Fin (- 13), Fin (- 13), Fin 0, Fin 13, Fin 13]"
    by (simp add: flux7_def p)
  have z: "map fst (filter (\<lambda>(t, f). P f)
             (zip [Fin 0, Fin 1, Fin 2, Fin 3, Fin 4, Fin 5, Fin 6] flux7))
           = [Fin 0, Fin 1, Fin 2, Fin 3, Fin 4, Fin 5]"
    by (simp add: flux7_def p)
  have l: "list_all isfinite flux7" "flux7 \<noteq> []" "length flux7 = 7"
    by (simp_all add: flux7_def)
  from five_sigma_clip_rejects[OF rounding_round_down10 l(1,2), of
      "[Fin 0, Fin 1, Fin 2, Fin 3, Fin 4, Fin 5, Fin 6]" None]
  have c: "five_sigma_clip round_down10 [Fin 0, Fin 1, Fin 2, Fin 3, Fin 4, Fin 5, Fin 6] flux7 None
    = Inr ([Fin 0, Fin 1, Fin 2, Fin 3, Fin 4, Fin 5],
           [Fin (- 26), Fin (- 13), Fin (- 13), Fin 0, Fin 13, Fin 13], None, Fin (877 / 1024))"
    using e z by (simp add: mad7 l(3) P_def) (simp add: round_down10_def)
  show ?thesis using a b c clip7_exact rounding_exact rounding_round_down10 by simp
qed

section \<open>Insufficient data\<close>

text \<open>The median, the MAD and the number of kept samples do not depend on the order
  of the samples, and sorting by time permutes them.\<close>

lemma fkey_inj: "fkey a = fkey b \<Longrightarrow> a = b"
  by (cases a; cases b) auto

lemma filter_eq_count: "filter (\<lambda>x. k = x) zs = replicate (count (mset zs) k) k"
  by (induction zs) auto

lemma sort_key_fkey_mset:
  assumes "mset xs = mset ys"
  shows "sort_key fkey xs = sort_key fkey ys"
proof (rule properties_for_sort_key)
  show "mset (sort_key fkey ys) = mset xs" using assms by simp
  show "sorted (map fkey (sort_key fkey ys))" by simp
  fix k assume "k \<in> set (sort_key fkey ys)"
  have e: "(\<lambda>x. fkey k = fkey x) = (\<lambda>x. k = x)" by (auto dest: fkey_inj)
  have "filter (\<lambda>x. k = x) (sort_key fkey ys) = filter (\<lambda>x. k = x) xs"
    using assms by (simp add: filter_eq_count)
  then show "filter (\<lambda>x. fkey k = fkey x) (sort_key fkey ys) = filter (\<lambda>x. fkey k = fkey x) xs"
    by (simp add: e)
qed

lemma np_sort_mset: "mset xs = mset ys \<Longrightarrow> np_sort xs = np_sort ys"
  unfolding np_sort_def by (rule sort_key_fkey_mset)

lemma np_median_mset:
  assumes "mset xs = mset ys"
  shows "np_median rnd xs = np_median rnd ys"
proof -
  have "set xs = set ys" using assms by (rule mset_eq_setD)
  moreover have "length xs = length ys" using assms by (rule mset_eq_length)
  moreover have "(xs = []) = (ys = [])" using \<open>length xs = length ys\<close> by auto
  ultimately show ?thesis
    by (simp add: np_median_def np_sort_mset[OF assms] list_ex_iff)
qed

lemma mad_mset:
  assumes "mset xs = mset ys"
  shows "mad rnd xs = mad rnd ys"
proof -
  have m: "np_median rnd xs = np_median rnd ys" by (rule np_median_mset[OF assms])
  have "np_median rnd (map (\<lambda>v. fabs (fsub rnd v (np_median rnd ys))) xs)
        = np_median rnd (map (\<lambda>v. fabs (fsub rnd v (np_median rnd ys))) ys)"
    by (rule np_median_mset) (simp add: assms)
  then show ?thesis by (simp only: mad_def m)
qed

lemma argsort_perm: "mset (argsort xs) = mset [0..<length xs]"
proof -
  have "mset (argsort xs) = mset (map snd (zip xs [0..<length xs]))"
    unfolding argsort_def by (simp only: mset_map mset_sort)
  moreover have "map snd (zip xs [0..<length xs]) = [0..<length xs]"
    by (rule map_snd_zip) simp
  ultimately show ?thesis by (simp only:)
qed

lemma reorder_perm:
  assumes "length ys = length xs"
  shows "mset (reorder ys (argsort xs)) = mset ys"
proof -
  have "mset (reorder ys (argsort xs)) = image_mset (\<lambda>i. ys ! i) (mset (argsort xs))"
    unfolding reorder_def by (simp only: mset_map)
  also have "\<dots> = image_mset (\<lambda>i. ys ! i) (mset [0..<length ys])"
    by (simp only: argsort_perm assms)
  also have "\<dots> = mset (map (\<lambda>i. ys ! i) [0..<length ys])"
    by (simp only: mset_map)
  also have "\<dots> = mset ys" by (simp only: map_nth)
  finally show ?thesis .
qed

lemma length_filter_mset:
  "mset xs = mset ys \<Longrightarrow> length (filter P xs) = length (filter P ys)"
  by (metis mset_filter size_mset)

lemma finite_filter_none:
  assumes "length flux = length time"
  shows "\<exists>t. finite_filter time flux None = Inr (t, spec_finite_flux time flux None, None)
             \<and> length t = length (spec_finite_flux time flux None)"
proof -
  have a: "map fst (filter snd (zip time (map (\<lambda>(x, y). x \<and> y) (zip (map isfinite time) (map isfinite flux)))))
        = map fst (filter (\<lambda>(t, f). isfinite t \<and> isfinite f) (zip time flux))"
    using assms[symmetric] by (induction time flux rule: list_induct2) auto
  have b: "map fst (filter snd (zip flux (map (\<lambda>(x, y). x \<and> y) (zip (map isfinite time) (map isfinite flux)))))
        = map snd (filter (\<lambda>(t, f). isfinite t \<and> isfinite f) (zip time flux))"
    using assms[symmetric] by (induction time flux rule: list_induct2) auto
  show ?thesis using assms
    by (simp add: finite_filter_def broadcast_and_def mask_select_def spec_finite_flux_def a b)
qed

lemma finite_filter_some:
  assumes "length flux = length time" "length err = length time"
  shows "\<exists>t e. finite_filter time flux (Some err) = Inr (t, spec_finite_flux time flux (Some err), Some e)
             \<and> length t = length (spec_finite_flux time flux (Some err))
             \<and> length e = length (spec_finite_flux time flux (Some err))"
proof -
  let ?m = "map (\<lambda>(x, y). x \<and> y) (zip (map (\<lambda>(x, y). x \<and> y) (zip (map isfinite time) (map isfinite flux))) (map isfinite err))"
  let ?P = "\<lambda>(t, f, e). isfinite t \<and> isfinite f \<and> isfinite e"
  have l: "length time = length flux" "length flux = length err" using assms by auto
  have a: "map fst (filter snd (zip time ?m)) = map (\<lambda>(t, f, e). t) (filter ?P (zip time (zip flux err)))"
    using l by (induction time flux err rule: list_induct3) auto
  have b: "map fst (filter snd (zip flux ?m)) = map (\<lambda>(t, f, e). f) (filter ?P (zip time (zip flux err)))"
    using l by (induction time flux err rule: list_induct3) auto
  have c: "map fst (filter snd (zip err ?m)) = map (\<lambda>(t, f, e). e) (filter ?P (zip time (zip flux err)))"
    using l by (induction time flux err rule: list_induct3) auto
  show ?thesis using assms
    by (simp add: finite_filter_def broadcast_and_def inplace_and_def mask_select_def
        spec_finite_flux_def a b c)
qed

lemma spec_finite_flux_finite: "list_all isfinite (spec_finite_flux time flux flux_err)"
  by (auto simp: spec_finite_flux_def list_all_iff split: option.splits)

lemma finite_filter_ok:
  assumes "length flux = length time"
      and "case flux_err of None \<Rightarrow> True | Some err \<Rightarrow> length err = length time"
  shows "\<exists>t e. finite_filter time flux flux_err = Inr (t, spec_finite_flux time flux flux_err, e)
             \<and> length t = length (spec_finite_flux time flux flux_err)
             \<and> (case e of None \<Rightarrow> True | Some er \<Rightarrow> length er = length (spec_finite_flux time flux flux_err))"
proof (cases flux_err)
  case None
  then show ?thesis using finite_filter_none[OF assms(1)] by auto
next
  case (Some err)
  then show ?thesis using finite_filter_some[OF assms(1), of err] assms(2) by auto
qed

lemma spec_rejected_mset:
  assumes "mset xs = mset ys"
  shows "spec_rejected rnd xs = spec_rejected rnd ys"
  by (rule ext) (simp only: spec_rejected_def np_median_mset[OF assms] mad_mset[OF assms])

lemma spec_kept_mset:
  assumes "mset xs = mset ys"
  shows "length (spec_kept rnd xs) = length (spec_kept rnd ys)"
proof -
  have l: "length xs = length ys" using assms by (rule mset_eq_length)
  have f: "length (filter P xs) = length (filter P ys)" for P
    using assms by (rule length_filter_mset)
  show ?thesis
    unfolding spec_kept_def mad_mset[OF assms] spec_rejected_mset[OF assms] by (simp add: l f)
qed

lemma clip_lengths:
  assumes "rounding rnd" and "list_all isfinite flux" and "flux \<noteq> []"
      and "length time = length flux"
      and "case flux_err of None \<Rightarrow> True | Some err \<Rightarrow> length err = length flux"
  shows "\<exists>tc fc ec k. five_sigma_clip rnd time flux flux_err = Inr (tc, fc, ec, k)
           \<and> length tc = length (spec_kept rnd flux)"
proof -
  have "length (map fst (filter (\<lambda>(t, f). P f) (zip time flux))) = length (filter P flux)" for P
    using assms(4) by (induction time flux rule: list_induct2) auto
  then show ?thesis
    using five_sigma_clip_finite[OF assms] assms(4) by (auto simp: spec_kept_def)
qed

lemma condition_sample_insufficient:
  assumes r: "rounding rnd" and "length flux = length time"
      and "case flux_err of None \<Rightarrow> True | Some err \<Rightarrow> length err = length time"
  shows "(condition_sample rnd time flux flux_err = Inl InsufficientDataError \<longleftrightarrow>
           length (spec_finite_flux time flux flux_err) < 200
           \<or> length (spec_kept rnd (spec_finite_flux time flux flux_err)) < 200)
       \<and> (condition_sample rnd time flux flux_err \<noteq> Inl InsufficientDataError \<longrightarrow>
            (\<exists>c. condition_sample rnd time flux flux_err = Inr c))"
proof -
  let ?F = "spec_finite_flux time flux flux_err"
  from finite_filter_ok[OF assms(2,3)] obtain t e where
    ff: "finite_filter time flux flux_err = Inr (t, ?F, e)" and lt: "length t = length ?F"
    and le: "case e of None \<Rightarrow> True | Some er \<Rightarrow> length er = length ?F" by blast
  have kl: "length (spec_kept rnd ?F) \<le> length ?F" by (simp add: spec_kept_def)
  show ?thesis
  proof (cases "length ?F < 200")
    case True
    then show ?thesis using ff lt by (simp add: condition_sample_def MIN_SAMPLES_def)
  next
    case False
    let ?ts = "reorder t (argsort t)" and ?fs = "reorder ?F (argsort t)"
    let ?es = "map_option (\<lambda>e. reorder e (argsort t)) e"
    have ms: "mset ?fs = mset ?F" using lt by (intro reorder_perm) simp
    have fin: "list_all isfinite ?fs"
      using spec_finite_flux_finite[of time flux flux_err] mset_eq_setD[OF ms]
      by (simp add: list_all_iff)
    have len: "length ?fs = length ?F" using ms by (rule mset_eq_length)
    have ne: "?fs \<noteq> []" using False len by auto
    have lts: "length ?ts = length ?fs" by (simp add: reorder_def)
    have les: "case ?es of None \<Rightarrow> True | Some err \<Rightarrow> length err = length ?fs"
      by (cases e) (simp_all add: reorder_def)
    from clip_lengths[OF r fin ne lts les] obtain tc fc ec k where
      cl: "five_sigma_clip rnd ?ts ?fs ?es = Inr (tc, fc, ec, k)"
      and ltc: "length tc = length (spec_kept rnd ?fs)" by blast
    have "length tc = length (spec_kept rnd ?F)" using ltc spec_kept_mset[OF ms] by simp
    then show ?thesis using False ff lt cl
      by (simp add: condition_sample_def MIN_SAMPLES_def sort_by_time_def Let_def)
  qed
qed

text \<open>
  C3. For a sample whose arrays have one length, whatever the rounding of the
  machine, \<open>build_bls_features\<close> raises \<open>InsufficientDataError\<close> exactly when fewer
  than 200 samples are finite or fewer than 200 of the finite samples are kept by
  the clipping. In that case it raises nothing else, and in every other case it
  does not raise this exception.
\<close>

theorem insufficient_data_iff:
  assumes "rounding rnd" and "length flux = length time"
      and "case flux_err of None \<Rightarrow> True | Some err \<Rightarrow> length err = length time"
  shows "build_bls_features rnd lib cfg time flux flux_err meta_arg = Inl InsufficientDataError \<longleftrightarrow>
           length (spec_finite_flux time flux flux_err) < 200
           \<or> length (spec_kept rnd (spec_finite_flux time flux flux_err)) < 200"
proof -
  have "build_bls_features rnd lib cfg time flux flux_err meta_arg = Inl InsufficientDataError \<longleftrightarrow>
        condition_sample rnd time flux flux_err = Inl InsufficientDataError"
    by (auto simp: build_bls_features_def Let_def split: sum.splits prod.splits)
  then show ?thesis using condition_sample_insufficient[OF assms] by simp
qed

lemma select_all:
  "length xs = length m \<Longrightarrow> list_all id m \<Longrightarrow> map fst (filter snd (zip xs m)) = xs"
  by (induction xs m rule: list_induct2) auto

lemma finite_filter_all_finite:
  assumes "length flux = length time" "list_all isfinite time" "list_all isfinite flux"
  shows "finite_filter time flux None = Inr (time, flux, None)"
proof -
  let ?m = "map (\<lambda>(x, y). x \<and> y) (zip (map isfinite time) (map isfinite flux))"
  have a: "list_all id ?m" using assms
    by (auto simp: list_all_iff set_zip)
  have l: "length ?m = length time" using assms by simp
  show ?thesis using assms a l
    by (simp add: finite_filter_def broadcast_and_def mask_select_def select_all)
qed

lemma argsort_sorted:
  assumes "sorted (map fkey xs)"
  shows "argsort xs = [0..<length xs]"
proof -
  have "map (\<lambda>p. fkey (fst p)) (zip xs [0..<length xs]) = map fkey xs"
    by (simp add: map_fst_zip flip: map_map[unfolded o_def])
  then have "sort_key (\<lambda>p. fkey (fst p)) (zip xs [0..<length xs]) = zip xs [0..<length xs]"
    using assms by (intro sort_key_id_if_sorted) simp
  then show ?thesis by (simp add: argsort_def)
qed

lemma reorder_id: "reorder xs [0..<length xs] = xs"
  by (simp add: reorder_def map_nth)

lemma np_sort_replicate: "np_sort (replicate n x) = replicate n x"
  unfolding np_sort_def by (rule sort_key_id_if_sorted) simp

lemma np_median_replicate: "0 < n \<Longrightarrow> np_median exact (replicate n (Fin a)) = Fin a"
  by (simp add: np_median_def np_sort_replicate list_ex_iff Let_def exact_def)

lemma mad_replicate: "0 < n \<Longrightarrow> mad exact (replicate n (Fin a)) = Fin 0"
  by (simp add: mad_def np_median_replicate fsub_def exact_def)

lemma t200_sorted: "sorted (map fkey t200)"
proof -
  have "sorted_wrt (\<lambda>x y. fkey (Fin (real x)) \<le> fkey (Fin (real y))) [0..<200]"
    by (rule sorted_wrt_mono_rel[OF _ sorted_wrt_upt]) simp
  then show ?thesis by (simp add: t200_def sorted_map sorted_wrt_map)
qed

lemma len200: "length t200 = 200" "length f200 = 200" "t200 \<noteq> []"
  by (simp_all add: t200_def f200_def)

lemma fin200: "list_all isfinite t200" "list_all isfinite f200"
  by (simp_all add: t200_def f200_def list_all_iff)

lemma c200: "condition_sample exact t200 f200 None =
   Inr \<lparr>c_time = t200, c_flux = f200, c_flux_err = None, c_fraction_kept = Fin 1, c_warnings = []\<rparr>"
proof -
  have ff: "finite_filter t200 f200 None = Inr (t200, f200, None)"
    by (rule finite_filter_all_finite) (simp_all add: len200 fin200)
  have st: "sort_by_time (t200, f200, None) = (t200, f200, None)"
    using reorder_id[of t200] reorder_id[of f200]
    by (simp add: sort_by_time_def argsort_sorted[OF t200_sorted] len200)
  have cl: "five_sigma_clip exact t200 f200 None = Inr (t200, f200, None, Fin 1)"
    by (simp add: five_sigma_clip_def f200_def mad_replicate)
  show ?thesis by (simp add: condition_sample_def ff st cl MIN_SAMPLES_def len200 exact_def)
qed

lemma n200: "normalise exact \<lparr>c_time = t200, c_flux = f200, c_flux_err = None, c_fraction_kept = Fin 1,
    c_warnings = []\<rparr> = Inr (replicate 200 (Fin 0), None)"
  by (simp add: normalise_def f200_def np_median_replicate fsub_def exact_def)

text \<open>The 200 samples of \<open>flux200\<close>: the median is 0 and the MAD 13. On the machine with
  ten binary places the last sample is rejected and 199 are left; without rounding
  all 200 are kept.\<close>

lemma len200r: "length flux200 = 200" "flux200 \<noteq> []" "list_all isfinite flux200"
  by (simp_all add: flux200_def list_all_iff)

lemma np_sort_sorted: "sorted (map fkey xs) \<Longrightarrow> np_sort xs = xs"
  unfolding np_sort_def by (rule sort_key_id_if_sorted)

lemma sorted200r: "sorted (map fkey flux200)"
  by (simp add: flux200_def sorted_append)

lemma med200r:
  assumes "rnd 0 = Fin 0"
  shows "np_median rnd flux200 = Fin 0"
proof -
  have a: "flux200 ! 99 = Fin 0" "flux200 ! 100 = Fin 0"
    by (simp_all add: flux200_def nth_append)
  have n: "\<not> list_ex isnan flux200" by (simp add: flux200_def list_ex_iff)
  show ?thesis using a n assms
    by (simp add: np_median_def np_sort_sorted[OF sorted200r] len200r Let_def)
qed

lemma dev200r:
  assumes "rnd 0 = Fin 0" "rnd (- 13) = Fin (- 13)" "rnd 13 = Fin 13" "rnd 96.369 = Fin d" "0 \<le> d"
  shows "map (\<lambda>v. fabs (fsub rnd v (Fin 0))) flux200
         = replicate 66 (Fin 13) @ replicate 67 (Fin 0) @ replicate 66 (Fin 13) @ [Fin d]"
  using assms by (simp add: flux200_def fsub_def)

lemma mad200r:
  assumes "rnd 0 = Fin 0" "rnd (- 13) = Fin (- 13)" "rnd 13 = Fin 13" "rnd 96.369 = Fin d"
      and "13 \<le> d" and "rnd 26 = Fin 26"
  shows "mad rnd flux200 = Fin 13"
proof -
  let ?d = "replicate 66 (Fin 13) @ replicate 67 (Fin 0) @ replicate 66 (Fin 13) @ [Fin d]"
  let ?s = "replicate 67 (Fin 0) @ replicate 132 (Fin 13) @ [Fin d]"
  have d0: "0 \<le> d" using assms(5) by simp
  have m: "mset ?d = mset ?s" by (simp add: multiset_eq_iff)
  have s: "sorted (map fkey ?s)" using assms(5) by (simp add: sorted_append)
  have srt: "np_sort ?d = ?s" using np_sort_mset[OF m] np_sort_sorted[OF s] by simp
  have a: "?s ! 99 = Fin 13" "?s ! 100 = Fin 13" by (simp_all add: nth_append)
  have n: "\<not> list_ex isnan ?d" by (simp add: list_ex_iff)
  have "np_median rnd ?d = Fin 13"
    using a n assms(3,6) by (simp add: np_median_def srt Let_def del: replicate_eq_replicate)
  then show ?thesis
    using med200r[where rnd = rnd, OF assms(1)] dev200r[where rnd = rnd, OF assms(1,2,3,4) d0]
    by (simp add: mad_def)
qed

lemma finite_flux200: "spec_finite_flux t200 flux200 None = flux200"
  using finite_filter_ok[of flux200 t200 None] finite_filter_all_finite[of flux200 t200]
  by (auto simp: len200 fin200 len200r)

lemma rd_facts:
  "round_down10 0 = Fin 0" "round_down10 (- 13) = Fin (- 13)" "round_down10 13 = Fin 13"
  "round_down10 96.369 = Fin (98681 / 1024)" "round_down10 26 = Fin 26"
  by (simp_all add: round_down10_def)

lemma ex_facts:
  "exact 0 = Fin 0" "exact (- 13) = Fin (- 13)" "exact 13 = Fin 13"
  "exact 96.369 = Fin 96.369" "exact 26 = Fin 26"
  by (simp_all add: exact_def)

lemma mad200_rd: "mad round_down10 flux200 = Fin 13"
  by (rule mad200r[where rnd = round_down10, OF rd_facts(1,2,3,4) _ rd_facts(5)]) simp

lemma mad200_ex: "mad exact flux200 = Fin 13"
  by (rule mad200r[where rnd = exact, OF ex_facts(1,2,3,4) _ ex_facts(5)]) simp

lemma rej200_rd: "spec_rejected round_down10 flux200 (Fin a)
   = (98670 / 1024 < \<bar>real_of_int \<lfloor>a * 1024\<rfloor> / 1024\<bar>)"
  unfolding spec_rejected_def mad200_rd med200r[where rnd = round_down10, OF rd_facts(1)]
  by (simp add: fsub_def round_down10_def fgt_def)

lemma rej200_ex: "spec_rejected exact flux200 (Fin a) = (96.369 < \<bar>a\<bar>)"
  unfolding spec_rejected_def mad200_ex med200r[where rnd = exact, OF ex_facts(1)]
  by (simp add: fsub_def exact_def fgt_def)

lemma kept200_rd: "length (spec_kept round_down10 flux200) = 199"
proof -
  define P where "P = (\<lambda>f. \<not> spec_rejected round_down10 flux200 f)"
  have p: "P (Fin a) = (\<not> 98670 / 1024 < \<bar>real_of_int \<lfloor>a * 1024\<rfloor> / 1024\<bar>)" for a
    by (simp add: P_def rej200_rd)
  have "length (filter P flux200) = 199" by (simp add: flux200_def p)
  then show ?thesis by (simp add: spec_kept_def mad200_rd P_def)
qed

lemma kept200_ex: "length (spec_kept exact flux200) = 200"
proof -
  define P where "P = (\<lambda>f. \<not> spec_rejected exact flux200 f)"
  have p: "P (Fin a) = (\<not> 96.369 < \<bar>a\<bar>)" for a
    by (simp add: P_def rej200_ex)
  have "length (filter P flux200) = 200" by (simp add: flux200_def p)
  then show ?thesis by (simp add: spec_kept_def mad200_ex P_def)
qed

theorem insufficient_data_iff_witness:
  "rounding exact
   \<and> build_bls_features exact lib0 cfg0 [Fin 0, NaN] [Fin 1, Fin 2] None None = Inl InsufficientDataError
   \<and> build_bls_features exact lib0 cfg0 t200 f200 None None \<noteq> Inl InsufficientDataError
   \<and> rounding round_down10
   \<and> build_bls_features round_down10 lib0 cfg0 t200 flux200 None None = Inl InsufficientDataError
   \<and> build_bls_features exact lib0 cfg0 t200 flux200 None None \<noteq> Inl InsufficientDataError"
proof -
  have a: "spec_finite_flux t200 f200 None = f200"
    using finite_filter_ok[of f200 t200 None] finite_filter_all_finite[of f200 t200]
    by (auto simp: len200 fin200)
  have b: "spec_kept exact f200 = f200" by (simp add: spec_kept_def f200_def mad_replicate)
  have c: "build_bls_features exact lib0 cfg0 [Fin 0, NaN] [Fin 1, Fin 2] None None = Inl InsufficientDataError"
    using insufficient_data_iff[OF rounding_exact, of "[Fin 1, Fin 2]" "[Fin 0, NaN]" None lib0 cfg0 None]
    by (simp add: spec_finite_flux_def)
  have d: "build_bls_features exact lib0 cfg0 t200 f200 None None \<noteq> Inl InsufficientDataError"
    using insufficient_data_iff[OF rounding_exact, of f200 t200 None lib0 cfg0 None]
    by (simp add: a b len200)
  have e: "build_bls_features round_down10 lib0 cfg0 t200 flux200 None None = Inl InsufficientDataError"
    using insufficient_data_iff[OF rounding_round_down10, of flux200 t200 None lib0 cfg0 None]
    by (simp add: finite_flux200 kept200_rd len200 len200r)
  have f: "build_bls_features exact lib0 cfg0 t200 flux200 None None \<noteq> Inl InsufficientDataError"
    using insufficient_data_iff[OF rounding_exact, of flux200 t200 None lib0 cfg0 None]
    by (simp add: finite_flux200 kept200_ex len200 len200r)
  show ?thesis using c d e f rounding_exact rounding_round_down10 by simp
qed

section \<open>Duty cycle and transit count\<close>

lemma in_vs_out_ok:
  "length m = length nf \<Longrightarrow> \<exists>v. in_vs_out_rms_of rnd lib nf m = Inr v"
  by (simp add: in_vs_out_rms_of_def mask_select_def Let_def)

lemma length_transit_numbers: "length (transit_numbers rnd ts t0 p) = length ts"
  by (simp add: transit_numbers_def)

lemma py_truediv_truthy: "truthy b \<Longrightarrow> py_truediv rnd a b = Inr (fdiv rnd a b)"
  by (simp add: py_truediv_def truthy_def)

lemma odd_even_ok:
  assumes "length m = length ts" "length nf = length ts"
  shows "\<exists>v. odd_even_depth_ratio_of rnd lib ts nf m t0 p = Inr v"
  using assms
  by (simp add: odd_even_depth_ratio_of_def broadcast_and_def mask_select_def Let_def
      length_transit_numbers py_truediv_truthy)

lemma rms_side_ok:
  "length nf = length ts \<Longrightarrow> \<exists>v. rms_side lib cmp ts nf t0 = Inr v"
  by (simp add: rms_side_def mask_select_def Let_def)

lemma fgt_truthy: "fgt p (Fin 0) \<Longrightarrow> truthy p"
  by (cases p) (auto simp: fgt_def truthy_def)

lemma fle_not_fgt0: "fle p (Fin 0) \<Longrightarrow> \<not> fgt p (Fin 0)"
  by (cases p) (auto simp: fgt_def)

lemma py_max_0_1: "py_max (Fin 0) (Fin 1) = Fin 1"
  by (simp add: py_max_def fgt_def)

lemma n_transits_nonpos: "fle p (Fin 0) \<Longrightarrow> n_transits_of rnd ts p = Inr (Fin 1)"
  by (simp add: n_transits_of_def fle_not_fgt0 py_max_0_1 Let_def)

lemma n_transits_pos:
  "fgt p (Fin 0) \<Longrightarrow> ts \<noteq> [] \<Longrightarrow>
   n_transits_of rnd ts p = Inr (py_max (fdiv rnd (fsub rnd (last ts) (hd ts)) p) (Fin 1))"
  by (simp add: n_transits_of_def py_truediv_truthy fgt_truthy Let_def)

lemma duty_cycle_nonpos: "fle p (Fin 0) \<Longrightarrow> duty_cycle_of rnd d p = Inr (Fin 0)"
  by (simp add: duty_cycle_of_def fle_not_fgt0)

lemma duty_cycle_pos: "fgt p (Fin 0) \<Longrightarrow> duty_cycle_of rnd d p = Inr (fdiv rnd d p)"
  by (simp add: duty_cycle_of_def py_truediv_truthy fgt_truthy)

lemma derive_features_ok:
  assumes "length norm_flux = length time_arr"
      and "length (transit_mask_array fit) = length time_arr"
      and "best_idx fit < length (spectrum fit)"
      and "n_transits_of rnd time_arr (best_period fit) = Inr n"
      and "duty_cycle_of rnd (best_duration fit) (best_period fit) = Inr d"
  shows "\<exists>fs. derive_features rnd lib time_arr norm_flux fit kept = Inr fs
            \<and> series_get fs ''duty_cycle'' = d \<and> series_get fs ''n_transits'' = n"
proof -
  obtain v1 where 1: "in_vs_out_rms_of rnd lib norm_flux (transit_mask_array fit) = Inr v1"
    using in_vs_out_ok[of "transit_mask_array fit" norm_flux] assms(1,2) by auto
  obtain v2 where 2: "odd_even_depth_ratio_of rnd lib time_arr norm_flux (transit_mask_array fit)
                        (best_t0 fit) (best_period fit) = Inr v2"
    using odd_even_ok[OF assms(2,1)] by blast
  obtain v3 where 3: "rms_side lib flt time_arr norm_flux (best_t0 fit) = Inr v3"
    using rms_side_ok[OF assms(1)] by blast
  obtain v4 where 4: "rms_side lib fgt time_arr norm_flux (best_t0 fit) = Inr v4"
    using rms_side_ok[OF assms(1)] by blast
  show ?thesis
    using assms(3)
    by (simp add: derive_features_def 1 2 3 4 assms(4,5) index_at_def series_get_def)
qed

lemma add_meta_keeps:
  assumes "k \<notin> set META_FEATURE_KEYS"
  shows "series_get (add_meta fs m) k = series_get fs k"
proof -
  have "map_of (fold (\<lambda>key f. case map_of mm key of Some v \<Rightarrow> AList.update key v f | None \<Rightarrow> f) ks f0) k
        = map_of f0 k" if "k \<notin> set ks" for ks mm and f0 :: series
    using that by (induction ks arbitrary: f0) (auto simp: update_conv' split: option.splits)
  then show ?thesis using assms
    by (cases m) (simp_all add: add_meta_def series_get_def)
qed

text \<open>
  C6. For a conditioned sample and a best fit of matching lengths, the derived
  features are computed without an exception. With a best period \<open>\<le> 0\<close> they have
  \<open>duty_cycle = 0\<close> and \<open>n_transits = 1.0\<close>; with a best period \<open>> 0\<close>,
  \<open>n_transits = max(baseline / period, 1.0)\<close> where the baseline is the last time
  minus the first. The metadata keys added afterwards leave both features as they are.
\<close>

theorem period_features:
  assumes "length norm_flux = length time_arr"
      and "length (transit_mask_array fit) = length time_arr"
      and "best_idx fit < length (spectrum fit)"
      and "time_arr \<noteq> []"
  shows "(fle (best_period fit) (Fin 0) \<longrightarrow>
           (\<exists>fs. derive_features rnd lib time_arr norm_flux fit kept = Inr fs
              \<and> series_get (add_meta fs meta_arg) ''duty_cycle'' = Fin 0
              \<and> series_get (add_meta fs meta_arg) ''n_transits'' = Fin 1))
       \<and> (fgt (best_period fit) (Fin 0) \<longrightarrow>
           (\<exists>fs. derive_features rnd lib time_arr norm_flux fit kept = Inr fs
              \<and> series_get (add_meta fs meta_arg) ''n_transits''
                  = py_max (fdiv rnd (fsub rnd (last time_arr) (hd time_arr)) (best_period fit)) (Fin 1)))"
proof -
  have k: "''duty_cycle'' \<notin> set META_FEATURE_KEYS" "''n_transits'' \<notin> set META_FEATURE_KEYS"
    by (simp_all add: META_FEATURE_KEYS_def)
  show ?thesis
    using derive_features_ok[where kept = kept and rnd = rnd and lib = lib,
            OF assms(1,2,3) n_transits_nonpos duty_cycle_nonpos]
          derive_features_ok[where kept = kept and rnd = rnd and lib = lib,
            OF assms(1,2,3) n_transits_pos[OF _ assms(4)] duty_cycle_pos]
    by (auto simp: add_meta_keeps[OF k(1)] add_meta_keeps[OF k(2)])
qed

theorem period_features_witness: "(\<exists>fs. derive_features exact lib0 [Fin 0, Fin 10] [Fin 0, Fin 0] fitA (Fin 1) = Inr fs
              \<and> series_get (add_meta fs None) ''duty_cycle'' = Fin 0
              \<and> series_get (add_meta fs None) ''n_transits'' = Fin 1)
   \<and> (\<exists>fs. derive_features exact lib0 [Fin 0, Fin 10] [Fin 0, Fin 0] (fitA\<lparr>best_period := Fin 4\<rparr>) (Fin 1) = Inr fs
              \<and> series_get (add_meta fs None) ''n_transits'' = Fin (5 / 2))"
  using period_features[where norm_flux = "[Fin 0, Fin 0]" and time_arr = "[Fin 0, Fin 10]"
          and fit = fitA and kept = "Fin 1" and meta_arg = None and rnd = exact and lib = lib0]
        period_features[where norm_flux = "[Fin 0, Fin 0]" and time_arr = "[Fin 0, Fin 10]"
          and fit = "fitA\<lparr>best_period := Fin 4\<rparr>" and kept = "Fin 1" and meta_arg = None
          and rnd = exact and lib = lib0]
  by (simp add: fitA_def fgt_def py_max_def fsub_def exact_def)

section \<open>Predictions after an automatic fetch\<close>

lemma acquire_fetched:
  assumes "lightcurves w tic = None" and "auto_fetch_missing cfg"
      and "mast w tic = Some df" and "col_time df = Some t" and "col_flux df = Some f"
  shows "acquire_lightcurve cfg tic w =
           (Inr ((t, f, col_flux_err df), True),
            w\<lparr>lightcurves := (lightcurves w)(tic \<mapsto> df),
              trace := trace w @ [ReadLightcurve tic, FetchLightcurve tic, ReadLightcurve tic]\<rparr>)"
  using assms
  by (simp add: acquire_lightcurve_def get_lightcurve_by_tic_def fetch_lightcurve_from_mast_def
      log_event_def Let_def)

lemma call_method_trace: "trace (snd (call_method m x w)) = trace w"
  by (cases m) (simp_all add: call_method_def call_library_def)

lemma call_library_trace: "trace (snd (call_library f w)) = trace w"
  by (simp add: call_library_def)

lemma model_input_trace: "trace (snd (model_input state fs w)) = trace w"
  by (cases "scaler state") (simp_all add: model_input_def call_method_trace)

lemma score_one_class_trace: "trace (snd (score_one_class rnd state X w)) = trace w"
  using call_method_trace[of "decision_function (model state)" X w]
  by (auto simp: score_one_class_def split: prod.splits sum.splits)

lemma score_supervised_trace: "trace (snd (score_supervised state X w)) = trace w"
proof (cases "xgb state")
  case None
  then show ?thesis by (simp add: score_supervised_def)
next
  case (Some xm)
  obtain a w1 where a: "call_library (\<lambda>a. DMatrix xm a X (feature_names state)) w = (a, w1)"
    by (cases "call_library (\<lambda>a. DMatrix xm a X (feature_names state)) w")
  with call_library_trace[of "\<lambda>a. DMatrix xm a X (feature_names state)" w]
  have t1: "trace w1 = trace w" by simp
  show ?thesis
  proof (cases a)
    case (Inl e)
    then show ?thesis using Some a t1 by (simp add: score_supervised_def)
  next
    case (Inr dm)
    obtain b w2 where b: "call_method (predict (model state)) dm w1 = (b, w2)"
      by (cases "call_method (predict (model state)) dm w1")
    with call_method_trace[of "predict (model state)" dm w1] t1
    have t2: "trace w2 = trace w" by simp
    show ?thesis
    proof (cases "calibrator state")
      case None
      then show ?thesis using Some a Inr b t2
        by (auto simp: score_supervised_def split: sum.splits)
    next
      case (Some cal)
      obtain c w3 where c: "call_method (predict_proba cal) X w2 = (c, w3)"
        by (cases "call_method (predict_proba cal) X w2")
      with call_method_trace[of "predict_proba cal" X w2] t2
      have t3: "trace w3 = trace w" by simp
      show ?thesis using \<open>xgb state = Some xm\<close> a Inr b t2 Some c t3
        by (auto simp: score_supervised_def split: sum.splits)
    qed
  qed
qed

lemma score_trace_any:
  "trace (snd (InferenceService_score rnd cfg fs sm ws tic st state ch af lc w))
     = trace w @ [ScoreCall]"
proof -
  let ?w = "log_event ScoreCall w"
  obtain a w1 where a: "model_input state fs ?w = (a, w1)" by (cases "model_input state fs ?w")
  with model_input_trace[of state fs ?w] have t1: "trace w1 = trace w @ [ScoreCall]"
    by (simp add: log_event_def)
  show ?thesis
  proof (cases a)
    case (Inl e)
    then show ?thesis using a t1 by (simp add: InferenceService_score_def)
  next
    case (Inr X)
    let ?s = "if mode state = one_class then score_one_class rnd state X w1
               else score_supervised state X w1"
    obtain b w2 where b: "?s = (b, w2)" by (cases ?s)
    have "trace (snd ?s) = trace w1"
      by (simp add: score_one_class_trace score_supervised_trace)
    with b t1 have t2: "trace w2 = trace w @ [ScoreCall]" by simp
    show ?thesis using a Inr b t2
      by (cases b) (auto simp: InferenceService_score_def elapsed_ms_def monotonic_ms_def
          split: prod.splits)
  qed
qed

lemma score_trace:
  "InferenceService_score rnd cfg fs sm ws tic st state ch af lc w = (Inr r, w') \<Longrightarrow>
   trace w' = trace w @ [ScoreCall]
   \<and> resp_features r = InferenceService_serialize_series fs
   \<and> resp_summary r = InferenceService_serialize_summary sm
   \<and> resp_warnings r = ws
   \<and> meta_cache_hit (resp_meta r) = ch \<and> meta_auto_fetch (resp_meta r) = af"
  using score_trace_any[of rnd cfg fs sm ws tic st state ch af lc w]
  by (auto simp: InferenceService_score_def elapsed_ms_def monotonic_ms_def
      split: sum.splits prod.splits)

lemma features_for_fetched_trace:
  "\<exists>evs. trace (snd (features_for rnd lib cfg tic arrays True w)) = trace w @ evs
         \<and> set evs \<subseteq> {WriteFeatureCache tic}"
  by (cases arrays)
     (auto simp: features_for_def write_cached_features_def log_event_def Let_def
      split: sum.splits error.splits)

lemma fetched_response:
  assumes "InferenceService_refresh svc False w = (Inr state, svc', w1)"
      and "lightcurves w tic = None" and "auto_fetch_missing (svc_settings svc)"
      and "mast w tic = Some df" and "col_time df = Some t" and "col_flux df = Some f"
      and "InferenceService_predict_by_tic rnd lib svc tic w = (Inr resp, svc'', w')"
  shows "\<exists>b. InferenceService_compute_features rnd lib (svc_settings svc) t f (col_flux_err df) None
               = Inr b
            \<and> resp_features resp = InferenceService_serialize_series (bls_features b)
            \<and> resp_summary resp = InferenceService_serialize_summary (bls_summary b)
            \<and> resp_warnings resp = bls_warnings b
            \<and> meta_cache_hit (resp_meta resp) = Some False
            \<and> meta_auto_fetch (resp_meta resp)
            \<and> trace w' = trace w1 @ [ReadLightcurve tic, FetchLightcurve tic, ReadLightcurve tic,
                                      WriteFeatureCache tic, ScoreCall]"
proof -
  let ?cfg = "svc_settings svc"
  let ?w2 = "w1\<lparr>ticks := Suc (ticks w1)\<rparr>"
  have w1: "lightcurves ?w2 tic = None" "mast ?w2 tic = Some df" "trace ?w2 = trace w1"
    using refresh_world[OF assms(1)] assms(2,4) by (auto simp: log_event_def)
  let ?w3 = "?w2\<lparr>lightcurves := (lightcurves ?w2)(tic \<mapsto> df),
              trace := trace ?w2 @ [ReadLightcurve tic, FetchLightcurve tic, ReadLightcurve tic]\<rparr>"
  have acq: "acquire_lightcurve ?cfg tic ?w2 = (Inr ((t, f, col_flux_err df), True), ?w3)"
    by (rule acquire_fetched[OF w1(1) assms(3) w1(2) assms(5,6)])
  from assms(7) obtain b where
    cf: "InferenceService_compute_features rnd lib ?cfg t f (col_flux_err df) None = Inr b"
    by (auto simp: InferenceService_predict_by_tic_def assms(1) monotonic_ms_def acq features_for_def
        split: sum.splits error.splits)
  let ?w4 = "write_cached_features tic (bls_features b) ?w3"
  from assms(7) obtain lp where
    sc: "InferenceService_score rnd ?cfg (bls_features b) (bls_summary b) (bls_warnings b) (Some tic)
           (clock w1 (ticks w1)) state (Some False) True (Some lp) ?w4 = (Inr resp, w')"
    by (auto simp: InferenceService_predict_by_tic_def assms(1) monotonic_ms_def acq features_for_def cf
        split: sum.splits prod.splits)
  have t4: "trace ?w4 = trace w1 @ [ReadLightcurve tic, FetchLightcurve tic, ReadLightcurve tic,
                                      WriteFeatureCache tic]"
    by (simp add: write_cached_features_def log_event_def Let_def)
  from score_trace[OF sc] cf t4 show ?thesis by simp
qed

lemma fetched_request_trace:
  assumes "InferenceService_refresh svc False w = (Inr state, svc', w1)"
      and "lightcurves w tic = None" and "auto_fetch_missing (svc_settings svc)"
      and "mast w tic = Some df" and "col_time df = Some t" and "col_flux df = Some f"
  shows "\<exists>evs. trace (snd (snd (InferenceService_predict_by_tic rnd lib svc tic w)))
                 = trace w1 @ [ReadLightcurve tic, FetchLightcurve tic, ReadLightcurve tic] @ evs
               \<and> set evs \<subseteq> {WriteFeatureCache tic, ScoreCall}"
proof -
  let ?cfg = "svc_settings svc"
  let ?w2 = "w1\<lparr>ticks := Suc (ticks w1)\<rparr>"
  have w1: "lightcurves ?w2 tic = None" "mast ?w2 tic = Some df" "trace ?w2 = trace w1"
    using refresh_world[OF assms(1)] assms(2,4) by (auto simp: log_event_def)
  define w3 where "w3 = ?w2\<lparr>lightcurves := (lightcurves ?w2)(tic \<mapsto> df),
              trace := trace ?w2 @ [ReadLightcurve tic, FetchLightcurve tic, ReadLightcurve tic]\<rparr>"
  let ?arr = "(t, f, col_flux_err df)"
  have acq: "acquire_lightcurve ?cfg tic ?w2 = (Inr (?arr, True), w3)"
    unfolding w3_def by (rule acquire_fetched[OF w1(1) assms(3) w1(2) assms(5,6)])
  have t3: "trace w3 = trace w1 @ [ReadLightcurve tic, FetchLightcurve tic, ReadLightcurve tic]"
    by (simp add: w3_def)
  obtain r4 w4 where ff: "features_for rnd lib ?cfg tic ?arr True w3 = (r4, w4)"
    by (cases "features_for rnd lib ?cfg tic ?arr True w3")
  from features_for_fetched_trace[of rnd lib ?cfg tic ?arr w3] ff obtain evs where
    e: "trace w4 = trace w3 @ evs" "set evs \<subseteq> {WriteFeatureCache tic}" by auto
  show ?thesis
  proof (cases r4)
    case (Inl err)
    then have "snd (snd (InferenceService_predict_by_tic rnd lib svc tic w)) = w4"
      by (simp add: InferenceService_predict_by_tic_def assms(1) monotonic_ms_def acq ff)
    then show ?thesis using e t3 by auto
  next
    case (Inr v)
    obtain fs sm ws ch where v: "v = (fs, sm, ws, ch)" by (cases v)
    show ?thesis
    proof (cases "InferenceService_prepare_lightcurve t f (col_flux_err df)")
      case (Inl err)
      then have "snd (snd (InferenceService_predict_by_tic rnd lib svc tic w)) = w4"
        by (simp add: InferenceService_predict_by_tic_def assms(1) monotonic_ms_def acq ff Inr v)
      then show ?thesis using e t3 by auto
    next
      case (Inr lp)
      let ?sc = "InferenceService_score rnd ?cfg fs sm ws (Some tic) (clock w1 (ticks w1)) state
                   (Some ch) True (Some lp) w4"
      have "snd (snd (InferenceService_predict_by_tic rnd lib svc tic w)) = snd ?sc"
        by (simp add: InferenceService_predict_by_tic_def assms(1) monotonic_ms_def acq ff
            \<open>r4 = Inr v\<close> v Inr split: prod.splits sum.splits)
      then have "trace (snd (snd (InferenceService_predict_by_tic rnd lib svc tic w)))
                 = trace w4 @ [ScoreCall]"
        by (simp add: score_trace_any)
      then show ?thesis using e t3 by auto
    qed
  qed
qed

text \<open>
  C10. When the light curve of a request is fetched during the request (no file,
  auto-fetch enabled, the download succeeds), a response of \<open>predict_by_tic\<close> holds
  the features, summary and warnings computed from the fetched arrays; its metadata
  has \<open>cache_hit = false\<close> and \<open>auto_fetch = true\<close>; and the calls of the request
  after the refresh are the lookup, the download, the second lookup, the write of
  the feature cache and the scoring. Whether the request gives a response or
  raises, the calls after the second lookup are writes of the feature cache and
  the scoring only: the feature cache is not read, whatever it holds.
\<close>

theorem auto_fetch_skips_cache:
  assumes "InferenceService_refresh svc False w = (Inr state, svc', w1)"
      and "lightcurves w tic = None" and "auto_fetch_missing (svc_settings svc)"
      and "mast w tic = Some df" and "col_time df = Some t" and "col_flux df = Some f"
  shows "(\<forall>resp svc'' w'.
            InferenceService_predict_by_tic rnd lib svc tic w = (Inr resp, svc'', w') \<longrightarrow>
            (\<exists>b. InferenceService_compute_features rnd lib (svc_settings svc) t f
                    (col_flux_err df) None = Inr b
               \<and> resp_features resp = InferenceService_serialize_series (bls_features b)
               \<and> resp_summary resp = InferenceService_serialize_summary (bls_summary b)
               \<and> resp_warnings resp = bls_warnings b
               \<and> meta_cache_hit (resp_meta resp) = Some False
               \<and> meta_auto_fetch (resp_meta resp)
               \<and> trace w' = trace w1 @ [ReadLightcurve tic, FetchLightcurve tic,
                                         ReadLightcurve tic, WriteFeatureCache tic, ScoreCall]))
       \<and> (\<exists>evs. trace (snd (snd (InferenceService_predict_by_tic rnd lib svc tic w)))
                   = trace w1 @ [ReadLightcurve tic, FetchLightcurve tic, ReadLightcurve tic] @ evs
                 \<and> set evs \<subseteq> {WriteFeatureCache tic, ScoreCall})"
  using fetched_response[OF assms] fetched_request_trace[OF assms] by blast

lemma s200: "period_search exact lib0 cfg t200 (replicate 200 (Fin 0)) None = Inr fit0"
  by (simp add: period_search_def lib0_def nanargmax_def index_at_def fit0_def fgt_def)

lemma b200: "\<exists>b. build_bls_features exact lib0 cfg t200 f200 None None = Inr b"
proof -
  have "\<exists>fs. derive_features exact lib0 t200 (replicate 200 (Fin 0)) fit0 (Fin 1) = Inr fs"
    using derive_features_ok[where norm_flux = "replicate 200 (Fin 0)" and time_arr = t200
             and fit = fit0 and kept = "Fin 1" and rnd = exact and lib = lib0,
             OF _ _ _ n_transits_pos duty_cycle_pos]
    by (auto simp: fit0_def len200 fgt_def)
  then show ?thesis
    by (auto simp: build_bls_features_def c200 n200 s200 Let_def)
qed

lemma refresh_fetch:
  "InferenceService_refresh svc_fetch False w_fetch = (Inr iso_state, svc_fetch, w_fetch)"
  by (simp add: InferenceService_refresh_def w_fetch_def ptr_iso)
     (simp add: svc_fetch_def iso_state_def)

lemma score_iso_ok:
  "\<exists>r w'. InferenceService_score rnd cfg fs sm ws tic st iso_state ch af lc w = (Inr r, w')"
  by (simp add: InferenceService_score_def model_input_def iso_state_def iso_model_def
      std_scaler_def score_one_class_def call_method_def call_library_def index0_def elapsed_ms_def
      monotonic_ms_def Let_def)

lemma prepare200: "\<exists>lp. InferenceService_prepare_lightcurve t200 f200 None = Inr lp"
  by (simp add: InferenceService_prepare_lightcurve_def sample_array_def len200)

theorem auto_fetch_skips_cache_witness:
  "feature_cache w_fetch 7 = Some [[(''period_days'', Fin 99)]]
   \<and> (\<exists>resp svc' w'.
         InferenceService_predict_by_tic exact lib0 svc_fetch 7 w_fetch = (Inr resp, svc', w')
         \<and> meta_cache_hit (resp_meta resp) = Some False
         \<and> meta_auto_fetch (resp_meta resp)
         \<and> trace w' = [ReadLightcurve 7, FetchLightcurve 7, ReadLightcurve 7,
                        WriteFeatureCache 7, ScoreCall])"
proof -
  have c: "feature_cache w_fetch 7 = Some [[(''period_days'', Fin 99)]]"
    by (simp add: w_fetch_def)
  have l: "lightcurves w_fetch 7 = None" by (simp add: w_fetch_def w_iso_def w_none_def)
  have a: "auto_fetch_missing (svc_settings svc_fetch)" by (simp add: svc_fetch_def cfg_fetch_def)
  have m: "mast w_fetch 7 = Some df200" by (simp add: w_fetch_def)
  have ct: "col_time df200 = Some t200" and cf: "col_flux df200 = Some f200"
    and ce: "col_flux_err df200 = None"
    by (simp_all add: df200_def)
  have tr: "trace w_fetch = []" by (simp add: w_fetch_def w_iso_def w_none_def)
  obtain b where b: "build_bls_features exact lib0 (svc_settings svc_fetch) t200 f200 None None = Inr b"
    using b200 by blast
  then have cfe: "InferenceService_compute_features exact lib0 (svc_settings svc_fetch) t200 f200 None None = Inr b"
    by (simp add: InferenceService_compute_features_def)
  let ?w2 = "w_fetch\<lparr>ticks := Suc (ticks w_fetch)\<rparr>"
  let ?w3 = "?w2\<lparr>lightcurves := (lightcurves ?w2)(7 \<mapsto> df200),
              trace := trace ?w2 @ [ReadLightcurve 7, FetchLightcurve 7, ReadLightcurve 7]\<rparr>"
  have acq: "acquire_lightcurve (svc_settings svc_fetch) 7 ?w2 =
           (Inr ((t200, f200, col_flux_err df200), True), ?w3)"
    by (rule acquire_fetched) (simp_all add: l a m ct cf)
  have ff: "features_for exact lib0 (svc_settings svc_fetch) 7 (t200, f200, None) True ?w3 =
           (Inr (bls_features b, bls_summary b, bls_warnings b, False),
            write_cached_features 7 (bls_features b) ?w3)"
    by (simp add: features_for_def cfe)
  obtain lp where lp: "InferenceService_prepare_lightcurve t200 f200 None = Inr lp"
    using prepare200 by blast
  obtain resp w' where sc:
    "InferenceService_score exact (svc_settings svc_fetch) (bls_features b) (bls_summary b)
       (bls_warnings b) (Some 7) (clock w_fetch (ticks w_fetch)) iso_state (Some False) True
       (Some lp) (write_cached_features 7 (bls_features b) ?w3) = (Inr resp, w')"
    using score_iso_ok by blast
  have p: "InferenceService_predict_by_tic exact lib0 svc_fetch 7 w_fetch = (Inr resp, svc_fetch, w')"
    unfolding InferenceService_predict_by_tic_def
    by (simp only: refresh_fetch monotonic_ms_def acq ce ff lp sc prod.case sum.case)
  from auto_fetch_skips_cache[OF refresh_fetch l a m ct cf, THEN conjunct1, rule_format, OF p] tr
  have "meta_cache_hit (resp_meta resp) = Some False \<and> meta_auto_fetch (resp_meta resp)
         \<and> trace w' = [ReadLightcurve 7, FetchLightcurve 7, ReadLightcurve 7,
                        WriteFeatureCache 7, ScoreCall]"
    by auto
  with c p show ?thesis by blast
qed

end
